theory Spec2Isabelle
  imports Main "HOL-Library.Sublist"
begin

section \<open>Strings and numbers of the host language\<close>

text \<open>
  A JavaScript string is modelled as a \<^typ>\<open>string\<close>. ASCII characters are themselves; a
  character beyond ASCII (the emoji of the answer templates) is the sequence of its UTF-8 bytes.
  Case conversion and trimming act on the ASCII range and leave every other byte alone, so
  the model agrees with \<^verbatim>\<open>toLowerCase\<close> and \<^verbatim>\<open>trim\<close> on ASCII text; the letters and the
  blanks beyond ASCII that the host language also converts and strips are not covered.
  Numbers are modelled as unbounded integers.
\<close>

definition upperLetters :: string where
  "upperLetters = ''ABCDEFGHIJKLMNOPQRSTUVWXYZ''"

definition lowerLetters :: string where
  "lowerLetters = ''abcdefghijklmnopqrstuvwxyz''"

definition toLowerChar :: "char \<Rightarrow> char" where
  "toLowerChar c = (case map_of (zip upperLetters lowerLetters) c of None \<Rightarrow> c | Some l \<Rightarrow> l)"

definition toUpperChar :: "char \<Rightarrow> char" where
  "toUpperChar c = (case map_of (zip lowerLetters upperLetters) c of None \<Rightarrow> c | Some u \<Rightarrow> u)"

definition toLowerCase :: "string \<Rightarrow> string" where
  "toLowerCase s = map toLowerChar s"

fun startsWith :: "string \<Rightarrow> string \<Rightarrow> bool" where
  "startsWith s [] = True"
| "startsWith [] (p # ps) = False"
| "startsWith (c # cs) (p # ps) = (c = p \<and> startsWith cs ps)"

text \<open>\<^verbatim>\<open>hay.includes(needle)\<close>: the needle occurs as a contiguous run.\<close>

fun str_includes :: "string \<Rightarrow> string \<Rightarrow> bool" where
  "str_includes [] n = (n = [])"
| "str_includes (c # cs) n = (startsWith (c # cs) n \<or> str_includes cs n)"

text \<open>\<^verbatim>\<open>s.split(sep)\<close> for a one-character separator; the result is never empty.\<close>

fun str_split :: "char \<Rightarrow> string \<Rightarrow> string list" where
  "str_split sep [] = [[]]"
| "str_split sep (c # cs) =
     (if c = sep then [] # str_split sep cs
      else (case str_split sep cs of
              [] \<Rightarrow> [[c]]
            | p # ps \<Rightarrow> (c # p) # ps))"

fun str_join :: "string \<Rightarrow> string list \<Rightarrow> string" where
  "str_join sep [] = []"
| "str_join sep [x] = x"
| "str_join sep (x # y # ys) = x @ sep @ str_join sep (y # ys)"

definition isWhiteSpace :: "char \<Rightarrow> bool" where
  "isWhiteSpace c = (let n = (of_char c :: nat) in (9 \<le> n \<and> n \<le> 13) \<or> n = 32)"

definition trimStart :: "string \<Rightarrow> string" where
  "trimStart s = dropWhile isWhiteSpace s"

definition trim :: "string \<Rightarrow> string" where
  "trim s = rev (dropWhile isWhiteSpace (rev (dropWhile isWhiteSpace s)))"

text \<open>
  Decimal rendering of a number inside a template literal. \<open>digitChar\<close> is only ever applied
  to a digit below ten.
\<close>

definition digitChar :: "nat \<Rightarrow> char" where
  "digitChar d = ''0123456789'' ! d"

fun show_nat :: "nat \<Rightarrow> string" where
  "show_nat n =
     (if n < 10 then [digitChar n]
      else show_nat (n div 10) @ [digitChar (n mod 10)])"

declare show_nat.simps [simp del]

definition show_int :: "int \<Rightarrow> string" where
  "show_int i = (if i < 0 then CHR ''-'' # show_nat (nat (- i)) else show_nat (nat i))"

text \<open>
  \<^verbatim>\<open>parseInt(s)\<close> without a radix: leading white space is skipped, one sign is read, a
  \<^verbatim>\<open>0x\<close> prefix selects base sixteen, and the longest run of digits is the value. No digit
  at all gives \<^verbatim>\<open>NaN\<close>, which is \<open>None\<close> here.
\<close>

definition digitValue :: "char \<Rightarrow> nat option" where
  "digitValue c =
     (let n = (of_char c :: nat) in
      if 48 \<le> n \<and> n \<le> 57 then Some (n - 48)
      else if 97 \<le> n \<and> n \<le> 102 then Some (n - 87)
      else if 65 \<le> n \<and> n \<le> 70 then Some (n - 55)
      else None)"

fun readDigits :: "nat \<Rightarrow> string \<Rightarrow> nat option \<Rightarrow> nat option" where
  "readDigits radix [] acc = acc"
| "readDigits radix (c # cs) acc =
     (case digitValue c of
        None \<Rightarrow> acc
      | Some d \<Rightarrow>
          if d < radix
          then readDigits radix cs (Some ((case acc of None \<Rightarrow> 0 | Some a \<Rightarrow> a) * radix + d))
          else acc)"

definition parseInt :: "string \<Rightarrow> int option" where
  "parseInt s =
     (let t = trimStart s;
          neg = startsWith t ''-'';
          u = (if startsWith t ''-'' \<or> startsWith t ''+'' then tl t else t);
          hex = (startsWith u ''0x'' \<or> startsWith u ''0X'');
          v = (if hex then readDigits 16 (drop 2 u) None else readDigits 10 u None)
      in case v of
           None \<Rightarrow> None
         | Some n \<Rightarrow> Some (if neg then - int n else int n))"

text \<open>A value interpolated into a template literal; \<open>None\<close> is \<^verbatim>\<open>null\<close>.\<close>

definition tmpl :: "string option \<Rightarrow> string" where
  "tmpl v = (case v of None \<Rightarrow> ''null'' | Some s \<Rightarrow> s)"

text \<open>\<^verbatim>\<open>v || d\<close> for an optional string: absent and empty are both falsy.\<close>

definition str_or :: "string option \<Rightarrow> string \<Rightarrow> string" where
  "str_or v d = (case v of None \<Rightarrow> d | Some s \<Rightarrow> if s = [] then d else s)"

definition nl :: string where
  "nl = [CHR 0x0A]"

subsection \<open>Pictographs of the answer templates, as UTF-8\<close>

definition em_castle :: string where
  "em_castle = [CHR 0xF0, CHR 0x9F, CHR 0x8F, CHR 0xB0]"

definition em_sparkles :: string where
  "em_sparkles = [CHR 0xE2, CHR 0x9C, CHR 0xA8]"

definition em_coaster :: string where
  "em_coaster = [CHR 0xF0, CHR 0x9F, CHR 0x8E, CHR 0xA2]"

definition em_bolt :: string where
  "em_bolt = [CHR 0xE2, CHR 0x9A, CHR 0xA1]"

definition em_clock :: string where
  "em_clock = [CHR 0xF0, CHR 0x9F, CHR 0x95, CHR 0x90]"

definition em_alarm :: string where
  "em_alarm = [CHR 0xE2, CHR 0x8F, CHR 0xB0]"

definition em_phone :: string where
  "em_phone = [CHR 0xF0, CHR 0x9F, CHR 0x93, CHR 0xB1]"

definition em_bags :: string where
  "em_bags = [CHR 0xF0, CHR 0x9F, CHR 0x9B, CHR 0x8D, CHR 0xEF, CHR 0xB8, CHR 0x8F]"

definition em_hotel :: string where
  "em_hotel = [CHR 0xF0, CHR 0x9F, CHR 0x8F, CHR 0xA8]"

definition em_calendar :: string where
  "em_calendar = [CHR 0xF0, CHR 0x9F, CHR 0x93, CHR 0x85]"

definition em_tearoff :: string where
  "em_tearoff = [CHR 0xF0, CHR 0x9F, CHR 0x93, CHR 0x86]"

definition em_pin :: string where
  "em_pin = [CHR 0xF0, CHR 0x9F, CHR 0x93, CHR 0x8D]"

definition em_car :: string where
  "em_car = [CHR 0xF0, CHR 0x9F, CHR 0x9A, CHR 0x97]"

definition em_star :: string where
  "em_star = [CHR 0xF0, CHR 0x9F, CHR 0x8C, CHR 0x9F]"

definition em_money :: string where
  "em_money = [CHR 0xF0, CHR 0x9F, CHR 0x92, CHR 0xB0]"

definition em_masks :: string where
  "em_masks = [CHR 0xF0, CHR 0x9F, CHR 0x8E, CHR 0xAD]"

definition em_tent :: string where
  "em_tent = [CHR 0xF0, CHR 0x9F, CHR 0x8E, CHR 0xAA]"

definition em_fairy :: string where
  "em_fairy = [CHR 0xF0, CHR 0x9F, CHR 0xA7, CHR 0x9A, CHR 0xE2, CHR 0x80, CHR 0x8D,
               CHR 0xE2, CHR 0x99, CHR 0x80, CHR 0xEF, CHR 0xB8, CHR 0x8F]"

definition em_dizzy :: string where
  "em_dizzy = [CHR 0xF0, CHR 0x9F, CHR 0x92, CHR 0xAB]"

definition em_arrow :: string where
  "em_arrow = [CHR 0xE2, CHR 0x86, CHR 0x92]"

section \<open>Data model of the chat screen\<close>

datatype ExtendedParkId =
  magicKingdom | epcot | hollywoodStudios | animalKingdom | disneySprings | resorts

text \<open>The identifier string a park value stands for.\<close>

fun park_id :: "ExtendedParkId \<Rightarrow> string" where
  "park_id magicKingdom = ''magicKingdom''"
| "park_id epcot = ''epcot''"
| "park_id hollywoodStudios = ''hollywoodStudios''"
| "park_id animalKingdom = ''animalKingdom''"
| "park_id disneySprings = ''disneySprings''"
| "park_id resorts = ''resorts''"

fun PARK_NAMES :: "ExtendedParkId \<Rightarrow> string" where
  "PARK_NAMES magicKingdom = ''Magic Kingdom''"
| "PARK_NAMES epcot = ''EPCOT''"
| "PARK_NAMES hollywoodStudios = ''Disney's Hollywood Studios''"
| "PARK_NAMES animalKingdom = ''Disney's Animal Kingdom''"
| "PARK_NAMES disneySprings = ''Disney Springs''"
| "PARK_NAMES resorts = ''Resorts''"

text \<open>The entries of \<^verbatim>\<open>ATTRACTION_TO_PARK\<close>, in the order \<^verbatim>\<open>Object.entries\<close> yields them.\<close>

definition ATTRACTION_TO_PARK :: "(string \<times> ExtendedParkId) list" where
  "ATTRACTION_TO_PARK =
    [(''space mountain'', magicKingdom),
     (''pirates of the caribbean'', magicKingdom),
     (''haunted mansion'', magicKingdom),
     (''big thunder mountain'', magicKingdom),
     (''seven dwarfs mine train'', magicKingdom),
     (''tiana's bayou adventure'', magicKingdom),
     (''jungle cruise'', magicKingdom),
     (''splash mountain'', magicKingdom),
     (''tron lightcycle run'', magicKingdom),
     (''guardians of the galaxy'', epcot),
     (''test track'', epcot),
     (''spaceship earth'', epcot),
     (''frozen ever after'', epcot),
     (''soarin'', epcot),
     (''mission space'', epcot),
     (''rise of the resistance'', hollywoodStudios),
     (''millennium falcon'', hollywoodStudios),
     (''tower of terror'', hollywoodStudios),
     (''rock n roller coaster'', hollywoodStudios),
     (''slinky dog dash'', hollywoodStudios),
     (''mickey and minnie's runaway railway'', hollywoodStudios),
     (''avatar flight of passage'', animalKingdom),
     (''expedition everest'', animalKingdom),
     (''kilimanjaro safaris'', animalKingdom),
     (''dinosaur'', animalKingdom),
     (''navi river journey'', animalKingdom)]"

text \<open>
  Values that come out of a JSON payload or leave a function declared to return a string but
  built from such a payload. \<open>JUndefined\<close> is the result of reading a property that is absent.
\<close>

datatype jsv =
  JUndefined
| JNull
| JBool bool
| JNum int
| JStr string
| JArr "jsv list"
| JObj "(string \<times> jsv) list"

datatype feedbackType = positive | negative

record Feedback =
  f_type :: feedbackType
  f_comment :: "string option"
  f_timestamp :: nat

record Message =
  m_id :: string
  m_text :: jsv
  m_isUser :: bool
  m_timestamp :: nat
  m_showFeedback :: "bool option"
  m_feedback :: "Feedback option"

record Attraction =
  a_id :: string
  a_name :: string
  a_waitTime :: int
  a_isOpen :: bool
  a_hasLightningLane :: "bool option"
  a_park :: string
  a_land :: "string option"

record Entertainment =
  e_name :: string
  e_type :: "string option"
  e_times :: "string list option"
  e_location :: "string option"
  e_land :: "string option"

record ParkEntertainment =
  pe_park :: string
  pe_entertainment :: "Entertainment list"

record CharacterMeet =
  c_characters :: "string list option"
  c_character :: "string option"
  c_location :: string
  c_times :: "string list option"
  c_time :: "string option"
  c_park :: "string option"

record ParkHours =
  ph_date :: "string option"
  ph_openingTime :: "string option"
  ph_closingTime :: "string option"

text \<open>The body of the park-hours endpoint, whose \<^verbatim>\<open>hours\<close> array may be missing.\<close>

record ParkHoursPayload =
  pl_hours :: "ParkHours list option"

record ParkHoursEntry =
  h_park :: string
  h_hours :: ParkHoursPayload

text \<open>
  The state of the component at one render. Every handler created at that render reads these
  values and only these: a state setter called by a handler does not change what the handler
  itself reads afterwards.
\<close>

record session =
  currentPark :: ExtendedParkId
  messages :: "Message list"
  inputText :: string
  isLoading :: bool
  allAttractions :: "Attraction list"
  allEntertainment :: "ParkEntertainment list"
  allParkHours :: "ParkHoursEntry list"
  allCharacterMeets :: "CharacterMeet list"
  conversationContext :: "string list"

section \<open>Formatting helpers\<close>

definition formatTime :: "string option \<Rightarrow> string option" where
  "formatTime militaryTime =
     (case militaryTime of
        None \<Rightarrow> None
      | Some t \<Rightarrow>
          if t = [] \<or> \<not> str_includes t '':'' then Some t
          else
            (let parts = str_split CHR '':'' t;
                 hours = (case parts of [] \<Rightarrow> ''undefined'' | h # _ \<Rightarrow> h);
                 minutes = (case parts of _ # m # _ \<Rightarrow> m | _ \<Rightarrow> ''undefined'')
             in case parseInt hours of
                  None \<Rightarrow> Some (''NaN:'' @ minutes @ '' PM'')
                | Some hour24 \<Rightarrow>
                    if hour24 = 0 then Some (''12:'' @ minutes @ '' AM'')
                    else if hour24 < 12 then Some (show_int hour24 @ '':'' @ minutes @ '' AM'')
                    else if hour24 = 12 then Some (''12:'' @ minutes @ '' PM'')
                    else Some (show_int (hour24 - 12) @ '':'' @ minutes @ '' PM'')))"

definition formatDate :: "string \<Rightarrow> string" where
  "formatDate dateString =
     (if dateString = [] \<or> \<not> str_includes dateString ''-'' then dateString
      else (case str_split CHR ''-'' dateString of
              [year, month, day] \<Rightarrow> month @ ''-'' @ day @ ''-'' @ year
            | _ \<Rightarrow> dateString))"

section \<open>Query analyzer\<close>

record analysis =
  isTimeQuery :: bool
  isSpecificLocationTime :: bool
  isCharacterQuery :: bool
  isSpecificCharacterLocation :: bool
  isEntertainmentQuery :: bool
  isFireworksQuery :: bool
  isShowQuery :: bool
  isParadeQuery :: bool
  isAttractionQuery :: bool
  isCrossParks :: bool
  targetPark :: "ExtendedParkId option"

definition analyzeQuery :: "string \<Rightarrow> analysis" where
  "analyzeQuery input =
     (let lower = toLowerCase input in
      \<lparr> isTimeQuery =
          (str_includes lower ''time'' \<or> str_includes lower ''hours'' \<or>
           str_includes lower ''open'' \<or> str_includes lower ''close''),
        isSpecificLocationTime =
          (str_includes lower ''fairytale hall'' \<or> str_includes lower ''princess fairytale hall'' \<or>
           str_includes lower ''fairy hall'' \<or> str_includes lower ''theater'' \<or>
           str_includes lower ''sideshow''),
        isCharacterQuery =
          (str_includes lower ''character'' \<or> str_includes lower ''meet'' \<or>
           str_includes lower ''mickey'' \<or>
           (str_includes lower ''princess'' \<and> \<not> str_includes lower ''fairytale'' \<and>
            \<not> str_includes lower ''fairy hall'' \<and>
            \<not> str_includes lower ''princess fairytale hall'')),
        isSpecificCharacterLocation =
          (str_includes lower ''fairytale hall'' \<or> str_includes lower ''princess fairytale hall'' \<or>
           str_includes lower ''fairy hall'' \<or> str_includes lower ''town square theater'' \<or>
           str_includes lower ''pete's silly sideshow''),
        isEntertainmentQuery =
          (str_includes lower ''show'' \<or> str_includes lower ''parade'' \<or>
           str_includes lower ''firework'' \<or> str_includes lower ''entertainment''),
        isFireworksQuery = str_includes lower ''firework'',
        isShowQuery =
          (str_includes lower ''show'' \<and> \<not> str_includes lower ''firework'' \<and>
           \<not> str_includes lower ''parade''),
        isParadeQuery = str_includes lower ''parade'',
        isAttractionQuery =
          (str_includes lower ''ride'' \<or> str_includes lower ''attraction'' \<or>
           str_includes lower ''wait''),
        isCrossParks =
          (str_includes lower ''flight of passage'' \<or> str_includes lower ''rise of the resistance'' \<or>
           str_includes lower ''frozen ever after''),
        targetPark =
          (if str_includes lower ''mk'' \<or> str_includes lower ''magic kingdom'' then Some magicKingdom
           else if str_includes lower ''epcot'' \<or> str_includes lower ''ep'' then Some epcot
           else if str_includes lower ''hollywood'' \<or> str_includes lower ''hs''
             then Some hollywoodStudios
           else if str_includes lower ''animal'' \<or> str_includes lower ''ak'' then Some animalKingdom
           else None) \<rparr>)"

section \<open>Pattern responder\<close>

definition truthy_str :: "string option \<Rightarrow> bool" where
  "truthy_str v = (case v of None \<Rightarrow> False | Some s \<Rightarrow> s \<noteq> [])"

text \<open>\<^verbatim>\<open>w.charAt(0).toUpperCase() + w.slice(1)\<close> on every word of the ride name.\<close>

definition capitalize :: "string \<Rightarrow> string" where
  "capitalize w = (case w of [] \<Rightarrow> [] | c # cs \<Rightarrow> toUpperChar c # cs)"

definition titleCase :: "string \<Rightarrow> string" where
  "titleCase rideName = str_join '' '' (map capitalize (str_split CHR '' '' rideName))"

definition switchedNote :: "ExtendedParkId \<Rightarrow> ExtendedParkId \<Rightarrow> string" where
  "switchedNote parkId effectivePark =
     (if parkId \<noteq> effectivePark then ''(Switched parks for you!) '' else '''')"

definition waitAnswer :: "Attraction \<Rightarrow> ExtendedParkId \<Rightarrow> ExtendedParkId \<Rightarrow> string" where
  "waitAnswer attraction parkId effectivePark =
     (let lightningLane =
            (if a_hasLightningLane attraction = Some True
             then '' '' @ em_bolt @ '' Lightning Lane available!'' else '''')
      in em_coaster @ '' **'' @ a_name attraction @ ''** currently has a **'' @
         show_int (a_waitTime attraction) @ '' minute wait**!'' @ lightningLane @ nl @ nl @
         em_castle @ '' Located at '' @ PARK_NAMES parkId @ '' in '' @
         str_or (a_land attraction) ''the park'' @ ''! '' @
         switchedNote parkId effectivePark @ em_sparkles)"

definition whereAnswer :: "Attraction \<Rightarrow> ExtendedParkId \<Rightarrow> ExtendedParkId \<Rightarrow> string" where
  "whereAnswer attraction parkId effectivePark =
     em_coaster @ '' **'' @ a_name attraction @ ''** is located at '' @ PARK_NAMES parkId @
     '' in '' @ str_or (a_land attraction) ''the park'' @ ''! '' @
     switchedNote parkId effectivePark @ em_sparkles"

definition locationOnlyAnswer :: "string \<Rightarrow> ExtendedParkId \<Rightarrow> string" where
  "locationOnlyAnswer rideName parkId =
     em_coaster @ '' '' @ titleCase rideName @ '' is located at '' @ PARK_NAMES parkId @
     ''! I've switched you to the correct park. '' @ em_sparkles @ nl @ nl @
     ''Try asking about it again for current wait times!''"

text \<open>The live record of a ride: \<^verbatim>\<open>allAttractions.find(...)\<close> inside the loop.\<close>

definition liveRecord :: "session \<Rightarrow> string \<Rightarrow> ExtendedParkId \<Rightarrow> Attraction option" where
  "liveRecord s rideName parkId =
     find (\<lambda>a. a_park a = park_id parkId \<and> str_includes (toLowerCase (a_name a)) rideName)
       (allAttractions s)"

text \<open>
  The loop over the entries of \<^verbatim>\<open>ATTRACTION_TO_PARK\<close>. The result is \<open>None\<close> when the loop
  runs to its end, and otherwise the returned answer with the \<^verbatim>\<open>setCurrentPark\<close> calls
  made before returning. The comparison that guards the call reads \<open>currentPark\<close> when a live
  record exists and \<open>effectivePark\<close> when none does, as the source has it.
\<close>

fun scanAttractions ::
  "session \<Rightarrow> string \<Rightarrow> ExtendedParkId \<Rightarrow> (string \<times> ExtendedParkId) list
     \<Rightarrow> (string \<times> ExtendedParkId list) option" where
  "scanAttractions s lowerInput effectivePark [] = None"
| "scanAttractions s lowerInput effectivePark ((rideName, parkId) # rest) =
     (if str_includes lowerInput rideName then
        (case liveRecord s rideName parkId of
           Some attraction \<Rightarrow>
             Some (if str_includes lowerInput ''wait'' \<or> str_includes lowerInput ''how long'' \<or>
                      str_includes lowerInput ''open'' \<or> \<not> str_includes lowerInput ''where''
                   then waitAnswer attraction parkId effectivePark
                   else whereAnswer attraction parkId effectivePark,
                   if parkId \<noteq> currentPark s then [parkId] else [])
         | None \<Rightarrow>
             if parkId \<noteq> effectivePark
             then Some (locationOnlyAnswer rideName parkId, [parkId])
             else scanAttractions s lowerInput effectivePark rest)
      else scanAttractions s lowerInput effectivePark rest)"

fun generalHours :: "ExtendedParkId \<Rightarrow> string" where
  "generalHours magicKingdom = ''9:00 AM - 10:00 PM''"
| "generalHours epcot = ''9:00 AM - 9:00 PM''"
| "generalHours hollywoodStudios = ''9:00 AM - 9:00 PM''"
| "generalHours animalKingdom = ''8:00 AM - 8:00 PM''"
| "generalHours disneySprings = ''10:00 AM - 11:00 PM''"
| "generalHours resorts = ''24/7 for guests''"

definition springsHoursAnswer :: string where
  "springsHoursAnswer =
     em_clock @ '' **Disney Springs Hours:**'' @ nl @ nl @
     em_alarm @ '' **Typical:** 10:00 AM - 11:00 PM'' @ nl @
     em_phone @ '' **Status:** Open daily'' @ nl @ nl @
     em_sparkles @ '' Individual shop and restaurant hours may vary. Check the Disney World app for specific store hours!''"

definition springsInfoAnswer :: string where
  "springsInfoAnswer =
     em_bags @ '' **Disney Springs** is Disney's shopping and dining district! I don't have live data for Springs yet, but it's open daily from 10 AM to 11 PM. Check the Disney World app for specific store and restaurant information! '' @ em_sparkles"

definition resortsInfoAnswer :: string where
  "resortsInfoAnswer =
     em_hotel @ '' **Disney Resort Hotels** are available 24/7 for guests! I don't have specific resort data yet, but you can check the Disney World app or call your resort directly for amenities, dining reservations, and transportation schedules! '' @ em_sparkles"

text \<open>
  The answer from cached hours is built by appending to \<^verbatim>\<open>response\<close>: a line for today when
  both times are truthy, a line for the date when it is truthy, a line for tomorrow when the
  array has a second entry, and the closing sentence.
\<close>

definition todayLine :: "ParkHours \<Rightarrow> string" where
  "todayLine todayHours =
     (if truthy_str (ph_openingTime todayHours) \<and> truthy_str (ph_closingTime todayHours)
      then em_calendar @ '' **Today:** '' @
           tmpl (formatTime (ph_openingTime todayHours)) @ '' - '' @
           tmpl (formatTime (ph_closingTime todayHours)) @ nl
      else [])"

definition dateLine :: "ParkHours \<Rightarrow> string" where
  "dateLine todayHours =
     (case ph_date todayHours of
        None \<Rightarrow> []
      | Some d \<Rightarrow> if d = [] then [] else em_tearoff @ '' **Date:** '' @ formatDate d @ nl)"

definition tomorrowLine :: "ParkHours list \<Rightarrow> string" where
  "tomorrowLine later =
     (case later of
        [] \<Rightarrow> []
      | tomorrowHours # _ \<Rightarrow>
          em_calendar @ '' **Tomorrow:** '' @
          tmpl (formatTime (ph_openingTime tomorrowHours)) @ '' - '' @
          tmpl (formatTime (ph_closingTime tomorrowHours)) @ nl)"

definition cachedHoursAnswer :: "string \<Rightarrow> ParkHours \<Rightarrow> ParkHours list \<Rightarrow> string" where
  "cachedHoursAnswer parkTitle todayHours later =
     em_clock @ '' **'' @ parkTitle @ '' Hours:**'' @ nl @ nl @
     todayLine todayHours @ dateLine todayHours @ tomorrowLine later @
     nl @ em_sparkles @
     '' These are today's official operating hours! Have a magical day! '' @ em_castle"

definition typicalHoursAnswer :: "ExtendedParkId \<Rightarrow> string" where
  "typicalHoursAnswer effectivePark =
     em_clock @ '' **'' @ PARK_NAMES effectivePark @ '' Hours:**'' @ nl @ nl @
     em_alarm @ '' **Typical:** '' @ generalHours effectivePark @ nl @ nl @
     em_sparkles @ '' Check the Disney World app for today's exact hours!''"

text \<open>
  \<^verbatim>\<open>tryPatternMatch(input, contextPark)\<close>: the answer, or \<open>None\<close> for the no-match signal,
  together with the \<^verbatim>\<open>setCurrentPark\<close> calls it made.
\<close>

definition tryPatternMatch ::
  "session \<Rightarrow> string \<Rightarrow> ExtendedParkId option \<Rightarrow> string option \<times> ExtendedParkId list" where
  "tryPatternMatch s input contextPark =
     (let lowerInput = toLowerCase input;
          effectivePark = (case contextPark of Some p \<Rightarrow> p | None \<Rightarrow> currentPark s);
          analysis = analyzeQuery input
      in case scanAttractions s lowerInput effectivePark ATTRACTION_TO_PARK of
           Some (answer, calls) \<Rightarrow> (Some answer, calls)
         | None \<Rightarrow>
             if effectivePark = disneySprings then
               (if isTimeQuery analysis then (Some springsHoursAnswer, [])
                else (Some springsInfoAnswer, []))
             else if effectivePark = resorts then (Some resortsInfoAnswer, [])
             else if isTimeQuery analysis \<and> \<not> isSpecificLocationTime analysis then
               (case find (\<lambda>p. h_park p = park_id effectivePark) (allParkHours s) of
                  None \<Rightarrow> (Some (typicalHoursAnswer effectivePark), [])
                | Some parkHoursData \<Rightarrow>
                    (case pl_hours (h_hours parkHoursData) of
                       None \<Rightarrow> (Some (typicalHoursAnswer effectivePark), [])
                     | Some [] \<Rightarrow> (Some (typicalHoursAnswer effectivePark), [])
                     | Some (todayHours # later) \<Rightarrow>
                         (Some (cachedHoursAnswer (PARK_NAMES effectivePark) todayHours later),
                          [])))
             else (None, []))"

text \<open>The current park once the queued \<^verbatim>\<open>setCurrentPark\<close> calls have been applied.\<close>

definition parkAfter :: "ExtendedParkId \<Rightarrow> ExtendedParkId list \<Rightarrow> ExtendedParkId" where
  "parkAfter cur calls = (if calls = [] then cur else last calls)"

section \<open>Values read out of a JSON payload\<close>

datatype error = TypeError | SyntaxError | NetworkError | HttpError nat

definition truthy :: "jsv \<Rightarrow> bool" where
  "truthy v =
     (case v of
        JUndefined \<Rightarrow> False
      | JNull \<Rightarrow> False
      | JBool b \<Rightarrow> b
      | JNum n \<Rightarrow> n \<noteq> 0
      | JStr t \<Rightarrow> t \<noteq> []
      | JArr _ \<Rightarrow> True
      | JObj _ \<Rightarrow> True)"

definition js_or :: "jsv \<Rightarrow> jsv \<Rightarrow> jsv" where
  "js_or v d = (if truthy v then v else d)"

text \<open>An object built by \<^verbatim>\<open>JSON.parse\<close> keeps the last value of a repeated key.\<close>

definition lookupKey :: "(string \<times> jsv) list \<Rightarrow> string \<Rightarrow> jsv" where
  "lookupKey kvs k = (case map_of (rev kvs) k of None \<Rightarrow> JUndefined | Some v \<Rightarrow> v)"

text \<open>
  \<^verbatim>\<open>x.p\<close> for a property name \<open>p\<close> that is neither an index nor a built-in member: reading
  from \<^verbatim>\<open>null\<close> or \<^verbatim>\<open>undefined\<close> throws, an object is looked up, every other value has no
  such property.
\<close>

definition getProp :: "jsv \<Rightarrow> string \<Rightarrow> error + jsv" where
  "getProp x p =
     (case x of
        JUndefined \<Rightarrow> Inl TypeError
      | JNull \<Rightarrow> Inl TypeError
      | JObj kvs \<Rightarrow> Inr (lookupKey kvs p)
      | _ \<Rightarrow> Inr JUndefined)"

text \<open>\<^verbatim>\<open>x?.p\<close>\<close>

definition optProp :: "jsv \<Rightarrow> string \<Rightarrow> jsv" where
  "optProp x p =
     (case x of
        JObj kvs \<Rightarrow> lookupKey kvs p
      | _ \<Rightarrow> JUndefined)"

text \<open>\<^verbatim>\<open>x[0]\<close>\<close>

definition getIndex0 :: "jsv \<Rightarrow> error + jsv" where
  "getIndex0 x =
     (case x of
        JUndefined \<Rightarrow> Inl TypeError
      | JNull \<Rightarrow> Inl TypeError
      | JArr vs \<Rightarrow> Inr (case vs of [] \<Rightarrow> JUndefined | v # _ \<Rightarrow> v)
      | JStr t \<Rightarrow> Inr (case t of [] \<Rightarrow> JUndefined | c # _ \<Rightarrow> JStr [c])
      | JObj kvs \<Rightarrow> Inr (lookupKey kvs ''0'')
      | _ \<Rightarrow> Inr JUndefined)"

section \<open>Message resolution\<close>

text \<open>
  What one \<^verbatim>\<open>fetch\<close> can do: reject, or answer with a status and a body that parses as JSON
  or does not.
\<close>

datatype http_body = NotJson | Json jsv

datatype fetch_outcome = Rejected | Responded nat http_body

definition response_ok :: "nat \<Rightarrow> bool" where
  "response_ok status = (200 \<le> status \<and> status \<le> 299)"

definition placeholderAnswer :: string where
  "placeholderAnswer = ''I had a magical moment processing that! '' @ em_sparkles"

text \<open>
  The part of the \<^verbatim>\<open>try\<close> block after the request has been sent: the status check, the
  parse of the body, and the selection of the first choice's content.
\<close>

definition readCompletion :: "fetch_outcome \<Rightarrow> error + jsv" where
  "readCompletion outcome =
     (case outcome of
        Rejected \<Rightarrow> Inl NetworkError
      | Responded status body \<Rightarrow>
          if \<not> response_ok status then Inl (HttpError status)
          else
            (case body of
               NotJson \<Rightarrow> Inl SyntaxError
             | Json aiData \<Rightarrow>
                 (case getProp aiData ''choices'' of
                    Inl e \<Rightarrow> Inl e
                  | Inr choices \<Rightarrow>
                      (case getIndex0 choices of
                         Inl e \<Rightarrow> Inl e
                       | Inr choice \<Rightarrow>
                           Inr (js_or (optProp (optProp choice ''message'') ''content'')
                                      (JStr placeholderAnswer))))))"

definition joinedOr :: "string list option \<Rightarrow> string option \<Rightarrow> string \<Rightarrow> string" where
  "joinedOr many single d =
     (case many of
        None \<Rightarrow> str_or single d
      | Some xs \<Rightarrow> if str_join '', '' xs = [] then str_or single d else str_join '', '' xs)"

definition attractionLine :: "Attraction \<Rightarrow> string" where
  "attractionLine a =
     a_name a @ '' ('' @ str_or (a_land a) ''park'' @ '') - '' @ show_int (a_waitTime a) @
     '' min wait'' @
     (if a_hasLightningLane a = Some True then '' (Lightning Lane available)'' else '''') @
     (if \<not> a_isOpen a then '' (CLOSED)'' else '''')"

definition entertainmentLine :: "Entertainment \<Rightarrow> string" where
  "entertainmentLine e =
     (let times = joinedOr (e_times e) None ''Times vary'';
          location = str_or (e_location e) (str_or (e_land e) ''Multiple locations'');
          type = (if truthy_str (e_type e) then ''['' @ tmpl (e_type e) @ '']'' else '''')
      in e_name e @ '' '' @ type @ '' - '' @ times @ '' ('' @ location @ '')'')"

definition characterLine :: "CharacterMeet \<Rightarrow> string" where
  "characterLine meet =
     (let characters = joinedOr (c_characters meet) (c_character meet) ''Character'';
          times = joinedOr (c_times meet) (c_time meet) ''Check times''
      in characters @ '' - '' @ c_location meet @ '' ('' @ times @ '')'')"

definition parkAttractions :: "session \<Rightarrow> ExtendedParkId \<Rightarrow> Attraction list" where
  "parkAttractions s target = filter (\<lambda>a. a_park a = park_id target) (allAttractions s)"

definition parkEntertainment :: "session \<Rightarrow> ExtendedParkId \<Rightarrow> Entertainment list" where
  "parkEntertainment s target =
     (case find (\<lambda>e. pe_park e = park_id target) (allEntertainment s) of
        None \<Rightarrow> []
      | Some e \<Rightarrow> pe_entertainment e)"

definition parkCharacters :: "session \<Rightarrow> ExtendedParkId \<Rightarrow> CharacterMeet list" where
  "parkCharacters s target =
     filter (\<lambda>meet. c_park meet = Some (park_id target)) (allCharacterMeets s)"

definition aiPrompt :: "session \<Rightarrow> ExtendedParkId \<Rightarrow> string \<Rightarrow> string" where
  "aiPrompt s target input =
     (let attractionsContext = str_join nl (map attractionLine (parkAttractions s target));
          entertainmentContext =
            (if length (parkEntertainment s target) > 0
             then str_join nl (map entertainmentLine (parkEntertainment s target))
             else ''No scheduled entertainment found'');
          characterContext =
            (if length (parkCharacters s target) > 0
             then str_join nl (map characterLine (parkCharacters s target))
             else ''No character meet data available'')
      in ''You are Pixie Pal, a Disney assistant! '' @ em_castle @ nl @ nl @
         ''CONTEXT:'' @ nl @
         ''- Current Park: '' @ PARK_NAMES target @ nl @
         ''- User Question: '' @ [CHR 0x22] @ input @ [CHR 0x22] @ nl @ nl @
         ''LIVE '' @ PARK_NAMES target @ '' DATA:'' @ nl @ nl @
         ''ATTRACTIONS & WAIT TIMES:'' @ nl @
         attractionsContext @ nl @ nl @
         ''ENHANCED ENTERTAINMENT & SHOWS:'' @ nl @
         entertainmentContext @ nl @ nl @
         ''CHARACTER MEETS:'' @ nl @
         characterContext @ nl @ nl @
         ''RESPONSE RULES:'' @ nl @
         ''1. Be specific and direct - don't ask for clarification'' @ nl @
         ''2. Use exact location names from the data'' @ nl @
         ''3. Include times when available'' @ nl @
         ''4. Don't greet (we're already talking)'' @ nl @
         ''5. Focus on exactly what they asked for'' @ nl @ nl @
         ''Answer the user's question using this enhanced Disney data!'')"

text \<open>The \<^verbatim>\<open>catch\<close> block: an answer composed from the cached data alone.\<close>

definition notCharacterMeet :: "Entertainment \<Rightarrow> bool" where
  "notCharacterMeet show =
     (case e_type show of None \<Rightarrow> True | Some t \<Rightarrow> \<not> str_includes t ''character-meet'')"

definition fallbackShowLine :: "Entertainment \<Rightarrow> string" where
  "fallbackShowLine show =
     em_tent @ '' **'' @ e_name show @ ''** - '' @ joinedOr (e_times show) None ''Check times'' @ nl"

definition fallbackMeetLine :: "CharacterMeet \<Rightarrow> string" where
  "fallbackMeetLine meet =
     em_sparkles @ '' **'' @ joinedOr (c_characters meet) (c_character meet) ''Character'' @
     ''** at '' @ c_location meet @ '' ('' @
     joinedOr (c_times meet) (c_time meet) ''Check times'' @ '')'' @ nl"

definition fallbackRideLine :: "Attraction \<Rightarrow> string" where
  "fallbackRideLine a =
     em_coaster @ '' '' @ a_name a @ '' - '' @ show_int (a_waitTime a) @ '' min'' @
     (if a_hasLightningLane a = Some True then '' '' @ em_bolt else '''')"

definition fallbackAnswer :: "session \<Rightarrow> analysis \<Rightarrow> ExtendedParkId \<Rightarrow> string" where
  "fallbackAnswer s analysis target =
     (let currentParkAttractions = parkAttractions s target;
          currentParkCharacters = parkCharacters s target;
          currentParkEntertainment = parkEntertainment s target
      in if isEntertainmentQuery analysis \<and> length currentParkEntertainment > 0 then
           em_masks @ '' **Entertainment at '' @ PARK_NAMES target @ '':**'' @ nl @ nl @
           concat (map fallbackShowLine (take 5 (filter notCharacterMeet currentParkEntertainment))) @
           nl @ em_sparkles @ '' Enhanced entertainment data! Check Disney app for updates! '' @
           em_masks
         else if isCharacterQuery analysis \<and> length currentParkCharacters > 0 then
           em_fairy @ '' **Character Meets at '' @ PARK_NAMES target @ '':**'' @ nl @ nl @
           concat (map fallbackMeetLine (take 3 currentParkCharacters)) @
           nl @ em_dizzy @ '' Character times can change - arrive early! '' @ em_sparkles
         else if isAttractionQuery analysis \<and> length currentParkAttractions > 0 then
           em_castle @ '' **'' @ PARK_NAMES target @ '' Top Attractions:**'' @ nl @ nl @
           str_join nl (map fallbackRideLine (take 5 currentParkAttractions)) @ nl @ nl @
           em_sparkles @ '' Live wait times updated regularly!''
         else
           em_sparkles @ '' I'm having a magical moment with the AI! But I have enhanced data including '' @
           show_nat (length currentParkAttractions) @ '' attractions, '' @
           show_nat (length currentParkEntertainment) @ '' entertainment shows, and '' @
           show_nat (length currentParkCharacters) @ '' character meets at '' @
           PARK_NAMES target @ ''. Try asking '' @ [CHR 0x22] @ ''show me all rides'' @
           [CHR 0x22] @ '', '' @ [CHR 0x22] @ ''what shows are happening'' @ [CHR 0x22] @
           '', or '' @ [CHR 0x22] @ ''character meets'' @ [CHR 0x22] @ ''! '' @ em_castle)"

definition springsStaticAnswer :: string where
  "springsStaticAnswer =
     em_bags @ '' **Disney Springs** is Disney's shopping and dining district!'' @ nl @ nl @
     em_pin @ '' **What's there:** World-class shopping, amazing restaurants, live entertainment'' @ nl @
     em_clock @ '' **Hours:** 10:00 AM - 11:00 PM daily'' @ nl @
     em_car @ '' **Parking:** Free parking available'' @ nl @ nl @
     em_sparkles @ '' Check the Disney World app for specific store and restaurant hours!''"

definition resortsStaticAnswer :: string where
  "resortsStaticAnswer =
     em_hotel @ '' **Disney Resort Hotels** offer magical accommodations!'' @ nl @ nl @
     em_castle @ '' **Deluxe Resorts:** Grand Floridian, Polynesian, Contemporary'' @ nl @
     em_star @ '' **Moderate Resorts:** Port Orleans, Caribbean Beach, Coronado Springs'' @ nl @
     em_money @ '' **Value Resorts:** All-Star Movies/Music/Sports, Pop Century, Art of Animation'' @ nl @ nl @
     em_sparkles @ '' Each resort has unique theming, dining, and transportation to the parks!''"

text \<open>
  What \<^verbatim>\<open>processUserInput\<close> does besides returning: the \<^verbatim>\<open>setCurrentPark\<close> calls in the
  order made, the completion requests sent (each by its prompt), and the updated context buffer.
\<close>

record resolution =
  r_response :: "error + jsv"
  r_parkCalls :: "ExtendedParkId list"
  r_requests :: "string list"
  r_context :: "string list"

text \<open>\<^verbatim>\<open>prev.slice(-4)\<close>\<close>

definition lastFour :: "'a list \<Rightarrow> 'a list" where
  "lastFour xs = drop (length xs - 4) xs"

text \<open>
  \<^verbatim>\<open>processUserInput(input)\<close>. The completion provider is a function from the prompt sent to
  the outcome of that one request. \<open>resolveTarget\<close> is \<^verbatim>\<open>analysis.targetPark || currentPark\<close>.
\<close>

definition resolveTarget :: "session \<Rightarrow> string \<Rightarrow> ExtendedParkId" where
  "resolveTarget s input =
     (case targetPark (analyzeQuery input) of Some p \<Rightarrow> p | None \<Rightarrow> currentPark s)"

definition processUserInput ::
  "session \<Rightarrow> (string \<Rightarrow> fetch_outcome) \<Rightarrow> string \<Rightarrow> resolution" where
  "processUserInput s provider input =
     (let context = lastFour (conversationContext s) @ [input];
          analysis = analyzeQuery input;
          target = resolveTarget s input;
          calls0 = (if target \<noteq> currentPark s then [target] else []);
          (patternResult, calls1) = tryPatternMatch s input (Some target)
      in if truthy_str patternResult then
           \<lparr> r_response = Inr (JStr (tmpl patternResult)), r_parkCalls = calls0 @ calls1,
             r_requests = [], r_context = context \<rparr>
         else if target = disneySprings then
           \<lparr> r_response = Inr (JStr springsStaticAnswer), r_parkCalls = calls0 @ calls1,
             r_requests = [], r_context = context \<rparr>
         else if target = resorts then
           \<lparr> r_response = Inr (JStr resortsStaticAnswer), r_parkCalls = calls0 @ calls1,
             r_requests = [], r_context = context \<rparr>
         else
           (let prompt = aiPrompt s target input in
            case readCompletion (provider prompt) of
              Inr aiResponse \<Rightarrow>
                \<lparr> r_response = Inr aiResponse, r_parkCalls = calls0 @ calls1,
                  r_requests = [prompt], r_context = context \<rparr>
            | Inl _ \<Rightarrow>
                \<lparr> r_response = Inr (JStr (fallbackAnswer s analysis target)),
                  r_parkCalls = calls0 @ calls1,
                  r_requests = [prompt], r_context = context \<rparr>))"

section \<open>Conversation session\<close>

text \<open>The clock readings and random numbers one call of \<^verbatim>\<open>sendMessage\<close> consumes.\<close>

record send_env =
  userNow :: nat
  userRandom :: string
  replyNow :: nat
  replyRandom :: string

definition apologyText :: string where
  "apologyText =
     ''Something magical went wrong! '' @ em_sparkles @
     '' Try asking me about wait times or park hours!''"

text \<open>\<^verbatim>\<open>messageText || inputText.trim()\<close>\<close>

definition textToSend :: "session \<Rightarrow> string option \<Rightarrow> string" where
  "textToSend s messageText =
     (if truthy_str messageText then tmpl messageText else trim (inputText s))"

text \<open>
  \<^verbatim>\<open>sendMessage(messageText)\<close>: the state once every queued update has been applied, and the
  completion requests sent on the way.
\<close>

definition sendMessage ::
  "session \<Rightarrow> (string \<Rightarrow> fetch_outcome) \<Rightarrow> send_env \<Rightarrow> string option
     \<Rightarrow> session \<times> string list" where
  "sendMessage s provider env messageText =
     (let text = textToSend s messageText
      in if text = [] then (s, [])
         else if isLoading s then (s, [])
         else
           (let userMessage =
                  \<lparr> m_id = ''user_'' @ show_nat (userNow env) @ ''_'' @ userRandom env,
                    m_text = JStr text, m_isUser = True, m_timestamp = userNow env,
                    m_showFeedback = None, m_feedback = None \<rparr>;
                res = processUserInput s provider text;
                reply =
                  (case r_response res of
                     Inr response \<Rightarrow>
                       \<lparr> m_id = ''ai_'' @ show_nat (replyNow env) @ ''_'' @ replyRandom env,
                         m_text = response, m_isUser = False, m_timestamp = replyNow env,
                         m_showFeedback = Some True, m_feedback = None \<rparr>
                   | Inl _ \<Rightarrow>
                       \<lparr> m_id = ''error_'' @ show_nat (replyNow env) @ ''_'' @ replyRandom env,
                         m_text = JStr apologyText, m_isUser = False, m_timestamp = replyNow env,
                         m_showFeedback = Some True, m_feedback = None \<rparr>)
            in (s \<lparr> messages := messages s @ [userMessage, reply],
                    inputText := [],
                    isLoading := False,
                    currentPark := parkAfter (currentPark s) (r_parkCalls res),
                    conversationContext := r_context res \<rparr>,
                r_requests res)))"

section \<open>Feedback\<close>

record feedbackData =
  fd_messageId :: string
  fd_feedbackType :: feedbackType
  fd_comment :: "string option"
  fd_timestamp :: string
  fd_park :: ExtendedParkId
  fd_messageText :: "string option"

text \<open>
  What the key-value store does during one call: both operations succeed, the read rejects, or
  the write rejects.
\<close>

datatype storage_outcome = StorageOk | GetItemFails | SetItemFails

text \<open>
  \<^verbatim>\<open>messages.find(m => m.id === messageId)?.text?.substring(0, 100)\<close>: a text that is neither
  absent nor a string has no \<^verbatim>\<open>substring\<close> to call. The prefix is cut after 100 characters of
  the model, which are the 100 code units of the source on ASCII text.
\<close>

definition messageTextPrefix :: "Message list \<Rightarrow> string \<Rightarrow> error + string option" where
  "messageTextPrefix ms messageId =
     (case find (\<lambda>m. m_id m = messageId) ms of
        None \<Rightarrow> Inr None
      | Some m \<Rightarrow>
          (case m_text m of
             JStr t \<Rightarrow> Inr (Some (take 100 t))
           | JUndefined \<Rightarrow> Inr None
           | JNull \<Rightarrow> Inr None
           | _ \<Rightarrow> Inl TypeError))"

definition attachFeedback :: "string \<Rightarrow> Feedback \<Rightarrow> Message \<Rightarrow> Message" where
  "attachFeedback messageId fb msg =
     (if m_id msg = messageId then msg \<lparr> m_feedback := Some fb \<rparr> else msg)"

text \<open>
  \<^verbatim>\<open>handleFeedback(messageId, feedbackType, comment)\<close>. The stored log is \<open>None\<close> while the key
  has never been written. The result is the state, the stored log, and the error the call
  rejects with, if any; a failure of the store is caught and only logged.
\<close>

definition handleFeedback ::
  "session \<Rightarrow> feedbackData list option \<Rightarrow> storage_outcome \<Rightarrow> nat \<Rightarrow> string
     \<Rightarrow> string \<Rightarrow> feedbackType \<Rightarrow> string option
     \<Rightarrow> session \<times> feedbackData list option \<times> error option" where
  "handleFeedback s stored outcome now nowIso messageId feedbackType comment =
     (let s' = s \<lparr> messages :=
                    map (attachFeedback messageId
                           \<lparr> f_type = feedbackType, f_comment = comment, f_timestamp = now \<rparr>)
                        (messages s) \<rparr>
      in case messageTextPrefix (messages s) messageId of
           Inl e \<Rightarrow> (s', stored, Some e)
         | Inr messageText \<Rightarrow>
             (let entry =
                    \<lparr> fd_messageId = messageId, fd_feedbackType = feedbackType,
                      fd_comment = comment, fd_timestamp = nowIso, fd_park = currentPark s,
                      fd_messageText = messageText \<rparr>
              in case outcome of
                   StorageOk \<Rightarrow>
                     (s', Some ((case stored of None \<Rightarrow> [] | Some log \<Rightarrow> log) @ [entry]), None)
                 | GetItemFails \<Rightarrow> (s', stored, None)
                 | SetItemFails \<Rightarrow> (s', stored, None)))"

section \<open>Park data service\<close>

datatype ParkId = MagicKingdom | Epcot | HollywoodStudios | AnimalKingdom

fun parkIdString :: "ParkId \<Rightarrow> string" where
  "parkIdString MagicKingdom = ''magicKingdom''"
| "parkIdString Epcot = ''epcot''"
| "parkIdString HollywoodStudios = ''hollywoodStudios''"
| "parkIdString AnimalKingdom = ''animalKingdom''"

fun getParkName :: "ParkId \<Rightarrow> string" where
  "getParkName MagicKingdom = ''Magic Kingdom''"
| "getParkName Epcot = ''EPCOT''"
| "getParkName HollywoodStudios = ''Disney's Hollywood Studios''"
| "getParkName AnimalKingdom = ''Disney's Animal Kingdom''"

text \<open>The string a value turns into inside a template literal.\<close>

fun js_toString :: "jsv \<Rightarrow> string" where
  "js_toString JUndefined = ''undefined''"
| "js_toString JNull = ''null''"
| "js_toString (JBool b) = (if b then ''true'' else ''false'')"
| "js_toString (JNum n) = show_int n"
| "js_toString (JStr t) = t"
| "js_toString (JArr vs) =
     str_join '','' (map (\<lambda>v. if v = JNull \<or> v = JUndefined then [] else js_toString v) vs)"
| "js_toString (JObj kvs) = ''[object Object]''"

text \<open>
  A normalized attraction as it exists at run time: the fields copied from the payload hold
  whatever value the payload had.
\<close>

record NormAttraction =
  n_id :: string
  n_name :: jsv
  n_land :: jsv
  n_waitTime :: int
  n_isOpen :: bool
  n_hasLightningLane :: jsv
  n_lastUpdated :: jsv
  n_park :: ParkId

definition normalizeOne :: "ParkId \<Rightarrow> string \<Rightarrow> nat \<Rightarrow> jsv \<Rightarrow> error + NormAttraction" where
  "normalizeOne parkId nowIso index attraction =
     (case getProp attraction ''id'' of
        Inl e \<Rightarrow> Inl e
      | Inr rawId \<Rightarrow>
          Inr \<lparr> n_id = parkIdString parkId @ ''-'' @ js_toString (js_or rawId (JNum (int index))),
                n_name = js_or (optProp attraction ''name'') (JStr ''Unknown Attraction''),
                n_land = js_or (optProp attraction ''land'')
                           (js_or (optProp attraction ''area'') (JStr ''Unknown Area'')),
                n_waitTime = (case optProp attraction ''waitTime'' of JNum n \<Rightarrow> n | _ \<Rightarrow> 0),
                n_isOpen = (optProp attraction ''isOpen'' \<noteq> JBool False),
                n_hasLightningLane =
                  js_or (optProp attraction ''hasLightningLane'')
                    (js_or (optProp attraction ''fastPassAvailable'') (JBool False)),
                n_lastUpdated = js_or (optProp attraction ''lastUpdated'') (JStr nowIso),
                n_park = parkId \<rparr>)"

text \<open>The callback of \<^verbatim>\<open>map\<close> applied from index \<open>i\<close> on; the first throw ends the whole map.\<close>

fun normalizeFrom :: "ParkId \<Rightarrow> string \<Rightarrow> nat \<Rightarrow> jsv list \<Rightarrow> error + NormAttraction list" where
  "normalizeFrom parkId nowIso i [] = Inr []"
| "normalizeFrom parkId nowIso i (v # vs) =
     (case normalizeOne parkId nowIso i v of
        Inl e \<Rightarrow> Inl e
      | Inr a \<Rightarrow>
          (case normalizeFrom parkId nowIso (Suc i) vs of
             Inl e \<Rightarrow> Inl e
           | Inr as \<Rightarrow> Inr (a # as)))"

text \<open>
  \<^verbatim>\<open>normalizeAttractions(attractions, parkId)\<close>; a value without a \<^verbatim>\<open>map\<close> method makes
  the call throw.
\<close>

definition normalizeAttractions :: "jsv \<Rightarrow> ParkId \<Rightarrow> string \<Rightarrow> error + NormAttraction list" where
  "normalizeAttractions attractions parkId nowIso =
     (case attractions of
        JArr vs \<Rightarrow> normalizeFrom parkId nowIso 0 vs
      | _ \<Rightarrow> Inl TypeError)"

record ParkData =
  pd_parkName :: string
  pd_parkId :: ParkId
  pd_attractions :: "NormAttraction list"
  pd_lastUpdated :: string
  pd_source :: string

definition getFallbackWaitTimes :: "ParkId \<Rightarrow> string \<Rightarrow> ParkData" where
  "getFallbackWaitTimes pid nowIso =
     \<lparr> pd_parkName = getParkName pid,
       pd_parkId = pid,
       pd_attractions =
         [\<lparr> n_id = parkIdString pid @ ''-fallback-1'',
            n_name = JStr ''Check Disney World App'',
            n_land = JUndefined,
            n_waitTime = 0,
            n_isOpen = True,
            n_hasLightningLane = JBool False,
            n_lastUpdated = JUndefined,
            n_park = pid \<rparr>],
       pd_lastUpdated = nowIso,
       pd_source = ''fallback'' \<rparr>"

text \<open>
  \<^verbatim>\<open>getWaitTimes(parkId)\<close>, given what the one request does. The result is \<open>Inl\<close> if the call
  rejects and \<open>Inr\<close> if it resolves.
\<close>

definition getWaitTimes :: "ParkId \<Rightarrow> fetch_outcome \<Rightarrow> string \<Rightarrow> error + ParkData" where
  "getWaitTimes pid outcome nowIso =
     (let attempt =
            (case outcome of
               Rejected \<Rightarrow> Inl NetworkError
             | Responded status body \<Rightarrow>
                 if response_ok status then
                   (case body of
                      NotJson \<Rightarrow> Inl SyntaxError
                    | Json data \<Rightarrow>
                        (case getProp data ''attractions'' of
                           Inl e \<Rightarrow> Inl e
                         | Inr raw \<Rightarrow>
                             (case normalizeAttractions (js_or raw (JArr [])) pid nowIso of
                                Inl e \<Rightarrow> Inl e
                              | Inr normalized \<Rightarrow>
                                  Inr \<lparr> pd_parkName = getParkName pid, pd_parkId = pid,
                                        pd_attractions = normalized,
                                        pd_lastUpdated = nowIso,
                                        pd_source = ''disney_proxy'' \<rparr>)))
                 else Inl (HttpError status))
      in case attempt of
           Inr result \<Rightarrow> Inr result
         | Inl _ \<Rightarrow> Inr (getFallbackWaitTimes pid nowIso))"

definition getFallbackParkHours :: "ParkId \<Rightarrow> jsv" where
  "getFallbackParkHours pid =
     JArr [JObj [(''date'', JStr ''Today''), (''openingTime'', JStr ''9:00 AM''),
                 (''closingTime'', JStr ''10:00 PM''), (''type'', JStr ''Operating'')]]"

definition getParkHours :: "ParkId \<Rightarrow> fetch_outcome \<Rightarrow> error + jsv" where
  "getParkHours pid outcome =
     (let attempt =
            (case outcome of
               Rejected \<Rightarrow> Inl NetworkError
             | Responded status body \<Rightarrow>
                 if response_ok status then
                   (case body of
                      NotJson \<Rightarrow> Inl SyntaxError
                    | Json data \<Rightarrow>
                        (case getProp data ''schedule'' of
                           Inl e \<Rightarrow> Inl e
                         | Inr raw \<Rightarrow> Inr (js_or raw (JArr []))))
                 else Inl (HttpError status))
      in case attempt of
           Inr result \<Rightarrow> Inr result
         | Inl _ \<Rightarrow> Inr (getFallbackParkHours pid))"

fun getFallbackEntertainment :: "ParkId \<Rightarrow> jsv" where
  "getFallbackEntertainment MagicKingdom =
     JArr [JObj [(''name'', JStr ''Festival of Fantasy Parade''), (''time'', JStr ''3:00 PM''),
                 (''location'', JStr (''Frontierland '' @ em_arrow @ '' Main Street USA'')),
                 (''duration'', JStr ''20 minutes''), (''type'', JStr ''parade'')],
           JObj [(''name'', JStr ''Happily Ever After''), (''time'', JStr ''9:00 PM''),
                 (''location'', JStr ''Cinderella Castle''), (''type'', JStr ''fireworks'')]]"
| "getFallbackEntertainment Epcot =
     JArr [JObj [(''name'', JStr ''EPCOT Forever''), (''time'', JStr ''9:00 PM''),
                 (''location'', JStr ''World Showcase Lagoon''), (''type'', JStr ''fireworks'')]]"
| "getFallbackEntertainment HollywoodStudios =
     JArr [JObj [(''name'', JStr ''Fantasmic!''), (''time'', JStr ''8:30 PM''),
                 (''location'', JStr ''Hollywood Hills Amphitheater''), (''type'', JStr ''show'')]]"
| "getFallbackEntertainment AnimalKingdom = JArr []"

definition getEntertainment :: "ParkId \<Rightarrow> fetch_outcome \<Rightarrow> error + jsv" where
  "getEntertainment pid outcome =
     (let attempt =
            (case outcome of
               Rejected \<Rightarrow> Inl NetworkError
             | Responded status body \<Rightarrow>
                 if response_ok status then
                   (case body of
                      NotJson \<Rightarrow> Inl SyntaxError
                    | Json data \<Rightarrow>
                        (case getProp data ''entertainment'' of
                           Inl e \<Rightarrow> Inl e
                         | Inr raw \<Rightarrow> Inr (js_or raw (JArr []))))
                 else Inl (HttpError status))
      in case attempt of
           Inr result \<Rightarrow> Inr result
         | Inl _ \<Rightarrow> Inr (getFallbackEntertainment pid))"

section \<open>Loading the cache\<close>

text \<open>
  \<^verbatim>\<open>loadAttractions\<close> stores what the endpoints sent without checking it, so the loaded cache
  is described here with the payload values it holds. The chat handlers above read the cache at
  the types the source declares for it.
\<close>

record LoadedAttraction =
  la_id :: string
  la_name :: jsv
  la_waitTime :: int
  la_isOpen :: bool
  la_hasLightningLane :: jsv
  la_park :: ParkId
  la_land :: jsv

text \<open>What the four requests made for one park do.\<close>

record parkSources =
  src_waitTimes :: fetch_outcome
  src_entertainment :: fetch_outcome
  src_characterMeets :: fetch_outcome
  src_parkHours :: fetch_outcome

record loadAcc =
  allData :: "LoadedAttraction list"
  accEntertainment :: "(ParkId \<times> jsv) list"
  accParkHours :: "(ParkId \<times> jsv) list"
  accCharacterMeets :: "jsv list"

fun proxyParkName :: "ParkId \<Rightarrow> string" where
  "proxyParkName MagicKingdom = ''magic-kingdom''"
| "proxyParkName Epcot = ''epcot''"
| "proxyParkName HollywoodStudios = ''hollywood-studios''"
| "proxyParkName AnimalKingdom = ''animal-kingdom''"

text \<open>
  One of the three requests \<^verbatim>\<open>loadAttractions\<close> sends itself: the parsed body when the
  response is a success, \<^verbatim>\<open>null\<close> when it is not or when anything throws.
\<close>

definition directFetch :: "fetch_outcome \<Rightarrow> jsv" where
  "directFetch outcome =
     (case outcome of
        Rejected \<Rightarrow> JNull
      | Responded status body \<Rightarrow>
          if response_ok status then (case body of NotJson \<Rightarrow> JNull | Json v \<Rightarrow> v)
          else JNull)"

definition toLoaded :: "ParkId \<Rightarrow> NormAttraction \<Rightarrow> LoadedAttraction" where
  "toLoaded pid attraction =
     \<lparr> la_id = proxyParkName pid @ ''-'' @ n_id attraction,
       la_name = n_name attraction,
       la_waitTime = (if n_waitTime attraction \<noteq> 0 then n_waitTime attraction else 0),
       la_isOpen = (n_isOpen attraction \<or> True),
       la_hasLightningLane = js_or JUndefined (js_or (n_hasLightningLane attraction) (JBool False)),
       la_park = pid,
       la_land = n_land attraction \<rparr>"

text \<open>The own enumerable properties an object spread copies.\<close>

fun indexed :: "nat \<Rightarrow> jsv list \<Rightarrow> (string \<times> jsv) list" where
  "indexed i [] = []"
| "indexed i (v # vs) = (show_nat i, v) # indexed (Suc i) vs"

definition spreadEntries :: "jsv \<Rightarrow> (string \<times> jsv) list" where
  "spreadEntries v =
     (case v of
        JObj kvs \<Rightarrow> kvs
      | JArr vs \<Rightarrow> indexed 0 vs
      | JStr t \<Rightarrow> indexed 0 (map (\<lambda>c. JStr [c]) t)
      | _ \<Rightarrow> [])"

definition isNullish :: "jsv \<Rightarrow> bool" where
  "isNullish v = (v = JNull \<or> v = JUndefined)"

text \<open>
  The body of the loop for one park. The four fetches cannot throw into it; the two \<^verbatim>\<open>map\<close>
  calls over payload values can, and the enclosing \<^verbatim>\<open>catch\<close> then abandons the rest of the
  park, keeping what was pushed before.
\<close>

definition loadPark :: "ParkId \<Rightarrow> parkSources \<Rightarrow> string \<Rightarrow> loadAcc \<Rightarrow> loadAcc" where
  "loadPark pid src nowIso acc =
     (case getWaitTimes pid (src_waitTimes src) nowIso of
        Inl _ \<Rightarrow> acc
      | Inr data \<Rightarrow>
          (let entertainmentData = directFetch (src_entertainment src);
               characterMeetData = directFetch (src_characterMeets src);
               parkHoursData = directFetch (src_parkHours src);
               acc1 = (if length (pd_attractions data) > 0
                       then acc \<lparr> allData := allData acc @ map (toLoaded pid) (pd_attractions data) \<rparr>
                       else acc);
               entertainment = optProp entertainmentData ''entertainment'';
               characterMeets = optProp characterMeetData ''characterMeets'';
               hoursStep = (\<lambda>a. if truthy parkHoursData
                                 then a \<lparr> accParkHours := accParkHours a @ [(pid, parkHoursData)] \<rparr>
                                 else a);
               characterStep =
                 (\<lambda>a. if truthy characterMeetData \<and> truthy characterMeets then
                         (case characterMeets of
                            JArr meets \<Rightarrow>
                              hoursStep
                                (a \<lparr> accCharacterMeets := accCharacterMeets a @
                                       map (\<lambda>meet. JObj (spreadEntries meet @
                                                          [(''park'', JStr (parkIdString pid))]))
                                           meets \<rparr>)
                          | _ \<Rightarrow> a)
                       else hoursStep a)
           in if truthy entertainmentData \<and> truthy entertainment then
                (case entertainment of
                   JArr shows \<Rightarrow>
                     if list_ex isNullish shows then acc1
                     else characterStep
                            (acc1 \<lparr> accEntertainment :=
                                      accEntertainment acc1 @ [(pid, entertainment)] \<rparr>)
                 | _ \<Rightarrow> acc1)
              else characterStep acc1))"

definition emptyAcc :: loadAcc where
  "emptyAcc = \<lparr> allData = [], accEntertainment = [], accParkHours = [], accCharacterMeets = [] \<rparr>"

text \<open>
  \<^verbatim>\<open>loadAttractions\<close>: the four parks in order. The result is the cache handed to the four
  state setters, or \<open>None\<close> when the setters are not called and the cache stays as it was.
\<close>

definition loadAttractions :: "(ParkId \<Rightarrow> parkSources) \<Rightarrow> string \<Rightarrow> loadAcc option" where
  "loadAttractions sources nowIso =
     (let acc = foldl (\<lambda>a pid. loadPark pid (sources pid) nowIso a) emptyAcc
                  [MagicKingdom, Epcot, HollywoodStudios, AnimalKingdom]
      in if length (allData acc) > 0 then Some acc else None)"

section \<open>Notions used to state the properties\<close>

text \<open>
  An entry of the attraction table makes the scan return: its keyword occurs in the lowercased
  input, and the ride has a live record or belongs to a park other than the effective one.
\<close>

definition scanAnswers :: "session \<Rightarrow> string \<Rightarrow> ExtendedParkId \<Rightarrow> string \<times> ExtendedParkId \<Rightarrow> bool" where
  "scanAnswers s lowerInput effectivePark entry =
     (str_includes lowerInput (fst entry) \<and>
      (liveRecord s (fst entry) (snd entry) \<noteq> None \<or> snd entry \<noteq> effectivePark))"

text \<open>\<^verbatim>\<open>contextPark || currentPark\<close>\<close>

definition effectiveParkOf :: "session \<Rightarrow> ExtendedParkId option \<Rightarrow> ExtendedParkId" where
  "effectiveParkOf s contextPark = (case contextPark of Some p \<Rightarrow> p | None \<Rightarrow> currentPark s)"

subsection \<open>Concrete sessions\<close>

definition blankSession :: session where
  "blankSession =
     \<lparr> currentPark = magicKingdom, messages = [], inputText = [], isLoading = False,
       allAttractions = [], allEntertainment = [], allParkHours = [], allCharacterMeets = [],
       conversationContext = [] \<rparr>"

definition spaceMountain :: Attraction where
  "spaceMountain =
     \<lparr> a_id = ''magic-kingdom-magicKingdom-1'', a_name = ''Space Mountain'', a_waitTime = 45,
       a_isOpen = True, a_hasLightningLane = Some True, a_park = ''magicKingdom'',
       a_land = Some ''Tomorrowland'' \<rparr>"

definition testTrack :: Attraction where
  "testTrack =
     \<lparr> a_id = ''epcot-epcot-2'', a_name = ''Test Track'', a_waitTime = 60,
       a_isOpen = True, a_hasLightningLane = Some False, a_park = ''epcot'',
       a_land = Some ''World Discovery'' \<rparr>"

definition magicKingdomHours :: ParkHoursEntry where
  "magicKingdomHours =
     \<lparr> h_park = ''magicKingdom'',
       h_hours = \<lparr> pl_hours = Some [\<lparr> ph_date = Some ''2025-03-01'',
                                       ph_openingTime = Some ''09:00'',
                                       ph_closingTime = Some ''22:00'' \<rparr>] \<rparr> \<rparr>"

definition twoRideSession :: session where
  "twoRideSession =
     blankSession \<lparr> currentPark := hollywoodStudios, allAttractions := [spaceMountain, testTrack] \<rparr>"

definition hoursSession :: session where
  "hoursSession =
     blankSession \<lparr> allAttractions := [spaceMountain], allParkHours := [magicKingdomHours] \<rparr>"

text \<open>What the scan returns at the entry that makes it return.\<close>

definition scanResult ::
  "session \<Rightarrow> string \<Rightarrow> ExtendedParkId \<Rightarrow> string \<times> ExtendedParkId
     \<Rightarrow> string \<times> ExtendedParkId list" where
  "scanResult s lowerInput effectivePark entry =
     (case liveRecord s (fst entry) (snd entry) of
        Some attraction \<Rightarrow>
          (if str_includes lowerInput ''wait'' \<or> str_includes lowerInput ''how long'' \<or>
              str_includes lowerInput ''open'' \<or> \<not> str_includes lowerInput ''where''
           then waitAnswer attraction (snd entry) effectivePark
           else whereAnswer attraction (snd entry) effectivePark,
           if snd entry \<noteq> currentPark s then [snd entry] else [])
      | None \<Rightarrow> (locationOnlyAnswer (fst entry) (snd entry), [snd entry]))"

text \<open>An hour of the day written with two digits, as the hours endpoint writes it.\<close>

definition twoDigits :: "nat \<Rightarrow> string" where
  "twoDigits h = (if h < 10 then CHR ''0'' # show_nat h else show_nat h)"

text \<open>
  What the specification asks of a rendered time: hour \<open>h\<close> of the day and minutes \<open>mm\<close> on the
  12-hour clock. Midnight and noon read 12, the hours before noon are AM, the others PM.
\<close>

definition twelveHourClock :: "nat \<Rightarrow> string \<Rightarrow> string" where
  "twelveHourClock h mm =
     show_nat (if h mod 12 = 0 then 12 else h mod 12) @ '':'' @ mm @
     (if h < 12 then '' AM'' else '' PM'')"

definition busyHoursSession :: session where
  "busyHoursSession =
     hoursSession \<lparr> isLoading := True, inputText := ''draft'',
                    conversationContext := [''earlier question''],
                    allEntertainment := [\<lparr> pe_park = ''magicKingdom'', pe_entertainment = [] \<rparr>] \<rparr>"

definition blankDraftSession :: session where
  "blankDraftSession = blankSession \<lparr> inputText := ''   '' \<rparr>"

definition sampleEnv :: send_env where
  "sampleEnv =
     \<lparr> userNow = 1700000000000, userRandom = ''0.25'',
       replyNow = 1700000000900, replyRandom = ''0.75'' \<rparr>"

text \<open>A completion provider that is unreachable, and one whose answer carries a number.\<close>

definition unreachableProvider :: "string \<Rightarrow> fetch_outcome" where
  "unreachableProvider prompt = Rejected"

definition numericContentBody :: jsv where
  "numericContentBody =
     JObj [(''choices'', JArr [JObj [(''message'', JObj [(''content'', JNum 42)])]])]"

definition numericProvider :: "string \<Rightarrow> fetch_outcome" where
  "numericProvider prompt = Responded 200 (Json numericContentBody)"

text \<open>What links a payload entry to the attraction normalized from it.\<close>

definition normalizedFrom :: "ParkId \<Rightarrow> jsv \<Rightarrow> NormAttraction \<Rightarrow> bool" where
  "normalizedFrom pid raw a =
     (n_park a = pid \<and>
      n_waitTime a = (case optProp raw ''waitTime'' of JNum n \<Rightarrow> n | _ \<Rightarrow> 0) \<and>
      n_isOpen a = (optProp raw ''isOpen'' \<noteq> JBool False) \<and>
      truthy (n_name a) \<and>
      n_name a = js_or (optProp raw ''name'') (JStr ''Unknown Attraction''))"

text \<open>An attraction entry whose name is a number.\<close>

definition rawNumberName :: jsv where
  "rawNumberName = JObj [(''id'', JStr ''sm''), (''name'', JNum 42), (''waitTime'', JNum 30)]"

text \<open>The log a stored value stands for: a key never written reads as the empty log.\<close>

definition storedLog :: "feedbackData list option \<Rightarrow> feedbackData list" where
  "storedLog stored = (case stored of None \<Rightarrow> [] | Some log \<Rightarrow> log)"

definition chatSession :: session where
  "chatSession =
     blankSession \<lparr> messages :=
       [\<lparr> m_id = ''user_1700000000000_0.25'', m_text = JStr ''any hours today?'',
          m_isUser = True, m_timestamp = 1700000000000, m_showFeedback = None,
          m_feedback = None \<rparr>,
        \<lparr> m_id = ''ai_1700000000900_0.75'', m_text = JStr ''Open from 9:00 AM'',
          m_isUser = False, m_timestamp = 1700000000900, m_showFeedback = Some True,
          m_feedback = None \<rparr>] \<rparr>"

subsection \<open>Concrete data sources\<close>

text \<open>Every endpoint answers 500.\<close>

definition failingSources :: "ParkId \<Rightarrow> parkSources" where
  "failingSources pid =
     \<lparr> src_waitTimes = Responded 500 NotJson, src_entertainment = Responded 500 NotJson,
       src_characterMeets = Responded 500 NotJson, src_parkHours = Responded 500 NotJson \<rparr>"

text \<open>
  The wait-times endpoint answers 200 with an object that has no \<^verbatim>\<open>attractions\<close> field, the
  entertainment endpoint answers 200 with one show, the other two answer 404.
\<close>

definition oneShowPayload :: jsv where
  "oneShowPayload =
     JObj [(''entertainment'',
            JArr [JObj [(''name'', JStr ''Fantasmic!''), (''times'', JArr [JStr ''8:30 PM''])]])]"

definition showsOnlySources :: "ParkId \<Rightarrow> parkSources" where
  "showsOnlySources pid =
     \<lparr> src_waitTimes = Responded 200 (Json (JObj [])),
       src_entertainment = Responded 200 (Json oneShowPayload),
       src_characterMeets = Responded 404 NotJson, src_parkHours = Responded 404 NotJson \<rparr>"

definition sampleIso :: string where
  "sampleIso = ''2025-03-01T09:00:00.000Z''"

text \<open>The attractions one park contributes to the loaded cache.\<close>

definition parkContribution :: "ParkId \<Rightarrow> fetch_outcome \<Rightarrow> string \<Rightarrow> LoadedAttraction list" where
  "parkContribution pid outcome nowIso =
     (case getWaitTimes pid outcome nowIso of
        Inl _ \<Rightarrow> []
      | Inr d \<Rightarrow> map (toLoaded pid) (pd_attractions d))"

text \<open>
  The wait-times and entertainment endpoints answer 500, the character-meet endpoint answers
  200 with one meet, and the hours endpoint answers 200 with one day.
\<close>

definition oneMeetPayload :: jsv where
  "oneMeetPayload =
     JObj [(''characterMeets'',
            JArr [JObj [(''character'', JStr ''Mickey Mouse''),
                        (''location'', JStr ''Town Square Theater'')]])]"

definition oneDayPayload :: jsv where
  "oneDayPayload =
     JObj [(''hours'',
            JArr [JObj [(''date'', JStr ''2025-03-01''), (''openingTime'', JStr ''09:00''),
                        (''closingTime'', JStr ''22:00'')]])]"

definition noShowsSources :: "ParkId \<Rightarrow> parkSources" where
  "noShowsSources pid =
     \<lparr> src_waitTimes = Responded 500 NotJson, src_entertainment = Responded 500 NotJson,
       src_characterMeets = Responded 200 (Json oneMeetPayload),
       src_parkHours = Responded 200 (Json oneDayPayload) \<rparr>"

subsection \<open>What the requests of one park delivered\<close>

text \<open>
  The two list fields and the hours payload as the loop reads them. A request that failed
  delivers \<^verbatim>\<open>null\<close>, and a field read from \<^verbatim>\<open>null\<close> is \<^verbatim>\<open>undefined\<close>.
\<close>

definition fetchedShows :: "parkSources \<Rightarrow> jsv" where
  "fetchedShows src = optProp (directFetch (src_entertainment src)) ''entertainment''"

definition fetchedMeets :: "parkSources \<Rightarrow> jsv" where
  "fetchedMeets src = optProp (directFetch (src_characterMeets src)) ''characterMeets''"

definition fetchedHours :: "parkSources \<Rightarrow> jsv" where
  "fetchedHours src = directFetch (src_parkHours src)"

text \<open>
  A category that brought nothing, or a list the loop can walk: the loop reads a property of
  every show, so a list of shows must not hold \<^verbatim>\<open>null\<close>.
\<close>

definition noneOrShows :: "jsv \<Rightarrow> bool" where
  "noneOrShows v = (case v of JArr shows \<Rightarrow> \<not> list_ex isNullish shows | _ \<Rightarrow> \<not> truthy v)"

definition noneOrList :: "jsv \<Rightarrow> bool" where
  "noneOrList v = (case v of JArr meets \<Rightarrow> True | _ \<Rightarrow> \<not> truthy v)"

text \<open>What a category adds to its accumulator when it is looked at on its own.\<close>

definition entryFor :: "ParkId \<Rightarrow> jsv \<Rightarrow> (ParkId \<times> jsv) list" where
  "entryFor pid v = (if truthy v then [(pid, v)] else [])"

definition meetEntries :: "ParkId \<Rightarrow> jsv \<Rightarrow> jsv list" where
  "meetEntries pid v =
     (case v of
        JArr meets \<Rightarrow>
          map (\<lambda>meet. JObj (spreadEntries meet @ [(''park'', JStr (parkIdString pid))])) meets
      | _ \<Rightarrow> [])"

subsection \<open>A sequence of attachments\<close>

text \<open>
  One press of a feedback button: the clock readings, the rating and the comment. \<open>attachAll\<close>
  replays a list of them on one message id, the store accepting every write.
\<close>

record attachment =
  at_now :: nat
  at_iso :: string
  at_type :: feedbackType
  at_comment :: "string option"

definition feedbackOf :: "attachment \<Rightarrow> Feedback" where
  "feedbackOf a = \<lparr> f_type = at_type a, f_comment = at_comment a, f_timestamp = at_now a \<rparr>"

definition entryOf :: "string \<Rightarrow> ExtendedParkId \<Rightarrow> string option \<Rightarrow> attachment \<Rightarrow> feedbackData" where
  "entryOf messageId park text a =
     \<lparr> fd_messageId = messageId, fd_feedbackType = at_type a, fd_comment = at_comment a,
       fd_timestamp = at_iso a, fd_park = park, fd_messageText = text \<rparr>"

fun attachAll ::
  "session \<Rightarrow> feedbackData list option \<Rightarrow> string \<Rightarrow> attachment list
     \<Rightarrow> session \<times> feedbackData list option" where
  "attachAll s stored messageId [] = (s, stored)"
| "attachAll s stored messageId (a # rest) =
     (let r = handleFeedback s stored StorageOk (at_now a) (at_iso a) messageId (at_type a)
                (at_comment a)
      in attachAll (fst r) (fst (snd r)) messageId rest)"

declare attachAll.simps [simp del]

definition rateUp :: attachment where
  "rateUp =
     \<lparr> at_now = 1700000001000, at_iso = ''2023-11-14T22:13:21.000Z'', at_type = positive,
       at_comment = None \<rparr>"

definition rateDown :: attachment where
  "rateDown =
     \<lparr> at_now = 1700000002000, at_iso = ''2023-11-14T22:13:22.000Z'', at_type = negative,
       at_comment = Some ''closes earlier'' \<rparr>"

section \<open>Facts about the string helpers\<close>

lemma startsWith_iff: "startsWith s p \<longleftrightarrow> (\<exists>ss. s = p @ ss)"
  by (induction s p rule: startsWith.induct) auto

lemma str_includes_iff: "str_includes h n \<longleftrightarrow> (\<exists>ps ss. h = ps @ n @ ss)"
proof (induction h)
  case Nil
  then show ?case by auto
next
  case (Cons c cs)
  show ?case
  proof
    assume "str_includes (c # cs) n"
    then consider "startsWith (c # cs) n" | "str_includes cs n" by auto
    then show "\<exists>ps ss. c # cs = ps @ n @ ss"
    proof cases
      case 1
      then obtain ss where "c # cs = n @ ss" by (auto simp: startsWith_iff)
      then have "c # cs = [] @ n @ ss" by simp
      then show ?thesis by blast
    next
      case 2
      then obtain ps ss where "cs = ps @ n @ ss" using Cons.IH by auto
      then have "c # cs = (c # ps) @ n @ ss" by simp
      then show ?thesis by blast
    qed
  next
    assume "\<exists>ps ss. c # cs = ps @ n @ ss"
    then obtain ps ss where eq: "c # cs = ps @ n @ ss" by blast
    show "str_includes (c # cs) n"
    proof (cases ps)
      case Nil
      with eq have "startsWith (c # cs) n" by (auto simp: startsWith_iff)
      then show ?thesis by simp
    next
      case (Cons p ps')
      with eq have "cs = ps' @ n @ ss" by simp
      then have "str_includes cs n" using Cons.IH by blast
      then show ?thesis by simp
    qed
  qed
qed

lemma str_includes_mid: "str_includes (ps @ n @ ss) n"
  by (auto simp: str_includes_iff)

lemma str_includes_appendI1: "str_includes a n \<Longrightarrow> str_includes (a @ b) n"
proof -
  assume "str_includes a n"
  then obtain ps ss where "a = ps @ n @ ss" by (auto simp: str_includes_iff)
  then have "a @ b = ps @ n @ (ss @ b)" by simp
  then show ?thesis unfolding str_includes_iff by blast
qed

lemma str_includes_appendI2: "str_includes b n \<Longrightarrow> str_includes (a @ b) n"
proof -
  assume "str_includes b n"
  then obtain ps ss where "b = ps @ n @ ss" by (auto simp: str_includes_iff)
  then have "a @ b = (a @ ps) @ n @ ss" by simp
  then show ?thesis unfolding str_includes_iff by blast
qed

lemma str_includes_ConsI: "str_includes cs n \<Longrightarrow> str_includes (c # cs) n"
  by simp

lemma str_includes_empty: "str_includes h []"
  by (cases h) simp_all

lemma show_nat_45: "show_nat 45 = ''45''"
  by (simp add: show_nat.simps digitChar_def)

lemmas lower_eval = toLowerCase_def toLowerChar_def upperLetters_def lowerLetters_def

section \<open>Facts about message resolution\<close>

text \<open>When the pattern responder answers, \<^verbatim>\<open>processUserInput\<close> returns that answer at once.\<close>

lemma processUserInput_pattern:
  assumes "tryPatternMatch s input (Some (resolveTarget s input)) = (Some r, calls)" and "r \<noteq> []"
  shows "processUserInput s provider input =
           \<lparr> r_response = Inr (JStr r),
             r_parkCalls =
               (if resolveTarget s input \<noteq> currentPark s then [resolveTarget s input] else []) @ calls,
             r_requests = [],
             r_context = lastFour (conversationContext s) @ [input] \<rparr>"
  using assms by (simp add: processUserInput_def Let_def truthy_str_def tmpl_def)

lemma waitAnswer_nonempty: "waitAnswer a p e \<noteq> []"
  by (simp add: waitAnswer_def em_coaster_def)

section \<open>The Space Mountain scenario\<close>

lemma scan_space_mountain:
  "scanAttractions
     (s\<lparr>currentPark := epcot,
        allAttractions := [a\<lparr>a_name := ''Space Mountain'', a_park := ''magicKingdom'',
                             a_waitTime := 45, a_hasLightningLane := Some True\<rparr>],
        isLoading := False\<rparr>)
     ''how long is the wait for space mountain'' eff ATTRACTION_TO_PARK
   = Some (waitAnswer (a\<lparr>a_name := ''Space Mountain'', a_park := ''magicKingdom'',
                          a_waitTime := 45, a_hasLightningLane := Some True\<rparr>) magicKingdom eff,
           [magicKingdom])"
  by (simp add: ATTRACTION_TO_PARK_def lower_eval liveRecord_def)

lemma waitAnswer_mentions:
  assumes "a_name a = ''Space Mountain''" and "a_waitTime a = 45"
    and "a_hasLightningLane a = Some True"
  shows "str_includes (waitAnswer a p e) ''45 minute wait'' \<and>
         str_includes (waitAnswer a p e) ''Lightning Lane available''"
  using assms
  by (simp add: waitAnswer_def show_int_def show_nat_45 em_coaster_def em_bolt_def nl_def)

lemma question_target: "targetPark (analyzeQuery ''how long is the wait for space mountain'') = None"
  by (simp add: analyzeQuery_def lower_eval)

lemma question_lower:
  "toLowerCase ''how long is the wait for space mountain'' = ''how long is the wait for space mountain''"
  by (simp add: lower_eval)

text \<open>
  Claim C2. With the current park EPCOT and one cached attraction named Space Mountain in
  magicKingdom, waiting 45 minutes and offering Lightning Lane, the question
  "how long is the wait for space mountain" is answered with a text that contains
  "45 minute wait" and "Lightning Lane available", and the current park becomes magicKingdom.
  This holds for the pattern responder called on its own with any context park, for
  \<^verbatim>\<open>processUserInput\<close> whatever the completion provider would do, and for \<^verbatim>\<open>sendMessage\<close>.
  The other fields of the attraction and of the session are arbitrary.
\<close>

theorem space_mountain_scenario:
  "let cached = a\<lparr>a_name := ''Space Mountain'', a_park := ''magicKingdom'',
                    a_waitTime := 45, a_hasLightningLane := Some True\<rparr>;
       st = s\<lparr>currentPark := epcot, allAttractions := [cached], isLoading := False\<rparr>;
       question = ''how long is the wait for space mountain''
   in (\<exists>answer. fst (tryPatternMatch st question contextPark) = Some answer \<and>
          str_includes answer ''45 minute wait'' \<and>
          str_includes answer ''Lightning Lane available'') \<and>
      parkAfter (currentPark st) (snd (tryPatternMatch st question contextPark)) = magicKingdom \<and>
      (\<exists>answer. r_response (processUserInput st provider question) = Inr (JStr answer) \<and>
          str_includes answer ''45 minute wait'' \<and>
          str_includes answer ''Lightning Lane available'') \<and>
      parkAfter (currentPark st) (r_parkCalls (processUserInput st provider question)) = magicKingdom \<and>
      currentPark (fst (sendMessage st provider env (Some question))) = magicKingdom"
proof -
  define cached where "cached = a\<lparr>a_name := ''Space Mountain'', a_park := ''magicKingdom'',
                    a_waitTime := 45, a_hasLightningLane := Some True\<rparr>"
  define st where "st = s\<lparr>currentPark := epcot, allAttractions := [cached], isLoading := False\<rparr>"
  define question where "question = ''how long is the wait for space mountain''"
  have tpm: "tryPatternMatch st question cp =
               (Some (waitAnswer cached magicKingdom (case cp of Some p \<Rightarrow> p | None \<Rightarrow> epcot)),
                [magicKingdom])" for cp
    unfolding tryPatternMatch_def st_def cached_def question_def question_lower Let_def
    by (simp only: scan_space_mountain) (simp split: option.splits)
  have inc: "str_includes (waitAnswer cached p e) ''45 minute wait'' \<and>
             str_includes (waitAnswer cached p e) ''Lightning Lane available''" for p e
    by (rule waitAnswer_mentions) (simp_all add: cached_def)
  have cur: "currentPark st = epcot" "isLoading st = False"
    by (simp_all add: st_def)
  have rt: "resolveTarget st question = epcot"
    by (simp add: resolveTarget_def question_def question_target cur)
  have pui: "processUserInput st provider question =
       \<lparr> r_response = Inr (JStr (waitAnswer cached magicKingdom epcot)),
         r_parkCalls = [magicKingdom], r_requests = [],
         r_context = lastFour (conversationContext st) @ [question] \<rparr>"
    using processUserInput_pattern
            [of st question "waitAnswer cached magicKingdom epcot" "[magicKingdom]" provider]
    by (simp add: rt tpm waitAnswer_nonempty cur)
  have qne: "question \<noteq> []"
    by (simp add: question_def)
  have sm: "currentPark (fst (sendMessage st provider env (Some question))) = magicKingdom"
    by (simp add: sendMessage_def textToSend_def Let_def truthy_str_def tmpl_def qne cur pui
          parkAfter_def)
  show ?thesis
    unfolding Let_def cached_def[symmetric] st_def[symmetric] question_def[symmetric]
    using inc sm by (simp add: parkAfter_def cur pui tpm)
qed

section \<open>The attraction scan\<close>

text \<open>The loop returns at the first entry that answers, and runs to its end if none does.\<close>

lemma scan_find:
  "scanAttractions s l eff es = map_option (scanResult s l eff) (find (scanAnswers s l eff) es)"
proof (induction es)
  case Nil
  then show ?case by simp
next
  case (Cons e es)
  obtain k p where e: "e = (k, p)" by (cases e)
  show ?case
    using Cons.IH by (auto simp: e scanAnswers_def scanResult_def split: option.splits)
qed

lemma waitAnswer_names_park: "str_includes (waitAnswer a p e) (PARK_NAMES p)"
  unfolding waitAnswer_def Let_def str_includes_iff
  by (metis append.assoc)

lemma whereAnswer_names_park: "str_includes (whereAnswer a p e) (PARK_NAMES p)"
  unfolding whereAnswer_def str_includes_iff
  by (metis append.assoc)

lemma locationOnlyAnswer_names_park: "str_includes (locationOnlyAnswer k p) (PARK_NAMES p)"
  unfolding locationOnlyAnswer_def str_includes_iff
  by (metis append.assoc)

lemma scanResult_park:
  "str_includes (fst (scanResult s l eff (k, p))) (PARK_NAMES p) \<and>
   parkAfter (currentPark s) (snd (scanResult s l eff (k, p))) = p"
  by (auto simp: scanResult_def parkAfter_def waitAnswer_names_park whereAnswer_names_park
        locationOnlyAnswer_names_park split: option.splits)

lemma tryPatternMatch_scan:
  "find (scanAnswers s (toLowerCase input) (effectiveParkOf s cp)) ATTRACTION_TO_PARK = Some e \<Longrightarrow>
   tryPatternMatch s input cp =
     (Some (fst (scanResult s (toLowerCase input) (effectiveParkOf s cp) e)),
      snd (scanResult s (toLowerCase input) (effectiveParkOf s cp) e))"
  by (simp add: tryPatternMatch_def Let_def scan_find effectiveParkOf_def split: prod.splits)

lemma tryPatternMatch_no_scan:
  assumes "find (scanAnswers s (toLowerCase input) (effectiveParkOf s contextPark))
             ATTRACTION_TO_PARK = None"
  shows "snd (tryPatternMatch s input contextPark) = []"
  using assms
  by (simp add: tryPatternMatch_def Let_def scan_find effectiveParkOf_def
        split: option.splits list.splits)

section \<open>Known attraction keywords\<close>

text \<open>
  Claim C1, as amended. Take the first entry of the attraction table, in its order, whose
  keyword the lowercased input contains and whose ride either has a live record in its owning
  park or is owned by a park other than the effective one. If there is such an entry, the
  pattern responder answers with a text naming the owning park of that entry, and the current
  park after the call (made with no park update pending) is that owning park, whatever the
  current park was before.
\<close>

theorem first_answering_keyword_decides:
  assumes "find (scanAnswers s (toLowerCase input) (effectiveParkOf s contextPark))
             ATTRACTION_TO_PARK = Some (keyword, park)"
  shows "str_includes (toLowerCase input) keyword \<and>
         (\<exists>answer calls.
           tryPatternMatch s input contextPark = (Some answer, calls) \<and>
           str_includes answer (PARK_NAMES park) \<and>
           parkAfter (currentPark s) calls = park)"
proof -
  from assms have "scanAnswers s (toLowerCase input) (effectiveParkOf s contextPark) (keyword, park)"
    by (auto simp: find_Some_iff)
  then have "str_includes (toLowerCase input) keyword" by (simp add: scanAnswers_def)
  then show ?thesis
    using tryPatternMatch_scan[OF assms] scanResult_park by auto
qed

lemma find_two:
  "find (scanAnswers twoRideSession (toLowerCase ''space mountain or test track'')
           (effectiveParkOf twoRideSession None)) ATTRACTION_TO_PARK
   = Some (''space mountain'', magicKingdom)"
  by (simp add: ATTRACTION_TO_PARK_def scanAnswers_def liveRecord_def twoRideSession_def
        blankSession_def spaceMountain_def testTrack_def effectiveParkOf_def lower_eval)

text \<open>The theorem at an input naming two rides of different parks, both with live records.\<close>

theorem first_answering_keyword_decides_witness:
  "find (scanAnswers twoRideSession (toLowerCase ''space mountain or test track'')
           (effectiveParkOf twoRideSession None)) ATTRACTION_TO_PARK
     = Some (''space mountain'', magicKingdom) \<and>
   str_includes (toLowerCase ''space mountain or test track'') ''space mountain'' \<and>
   (\<exists>answer calls.
      tryPatternMatch twoRideSession ''space mountain or test track'' None = (Some answer, calls) \<and>
      str_includes answer (PARK_NAMES magicKingdom) \<and>
      parkAfter (currentPark twoRideSession) calls = magicKingdom)"
  using first_answering_keyword_decides[OF find_two] find_two by simp

text \<open>
  Claim C1 as stated fails in two ways. An input that contains the keyword of an EPCOT ride
  after the keyword of a Magic Kingdom ride leaves the current park at Magic Kingdom. An input
  that contains a keyword whose ride has no live record and whose park is already the effective
  park gets no answer from the pattern responder at all.
\<close>

theorem keyword_park_counterexample:
  "(''test track'', epcot) \<in> set ATTRACTION_TO_PARK \<and>
   str_includes (toLowerCase ''space mountain or test track'') ''test track'' \<and>
   parkAfter (currentPark twoRideSession)
     (snd (tryPatternMatch twoRideSession ''space mountain or test track'' None)) = magicKingdom \<and>
   magicKingdom \<noteq> epcot \<and>
   (''space mountain'', magicKingdom) \<in> set ATTRACTION_TO_PARK \<and>
   str_includes (toLowerCase ''space mountain'') ''space mountain'' \<and>
   tryPatternMatch blankSession ''space mountain'' None = (None, [])"
proof -
  have a: "(''test track'', epcot) \<in> set ATTRACTION_TO_PARK"
          "(''space mountain'', magicKingdom) \<in> set ATTRACTION_TO_PARK"
    by (simp_all add: ATTRACTION_TO_PARK_def)
  have b: "str_includes (toLowerCase ''space mountain or test track'') ''test track''"
          "str_includes (toLowerCase ''space mountain'') ''space mountain''"
    by (simp_all add: lower_eval)
  have c: "parkAfter (currentPark twoRideSession)
     (snd (tryPatternMatch twoRideSession ''space mountain or test track'' None)) = magicKingdom"
    using tryPatternMatch_scan[OF find_two] scanResult_park by simp
  have d: "find (scanAnswers blankSession (toLowerCase ''space mountain'') magicKingdom) ATTRACTION_TO_PARK = None"
    by (simp add: ATTRACTION_TO_PARK_def scanAnswers_def liveRecord_def blankSession_def lower_eval)
  have e: "tryPatternMatch blankSession ''space mountain'' None = (None, [])"
    using d
    by (simp add: tryPatternMatch_def Let_def scan_find)
       (simp add: blankSession_def analyzeQuery_def lower_eval)
  show ?thesis using a b c e by simp
qed

section \<open>Park hours\<close>

lemma str_split_no_sep: "sep \<notin> set t \<Longrightarrow> str_split sep t = [t]"
  by (induction t) auto

lemma str_split_first: "sep \<notin> set a \<Longrightarrow> str_split sep (a @ sep # b) = a # str_split sep b"
  by (induction a) auto

lemma twoDigits_table:
  "\<forall>h \<in> set [0..<24]. parseInt (twoDigits h) = Some (int h) \<and> CHR '':'' \<notin> set (twoDigits h)"
  by code_simp

lemma twoDigits_parse:
  assumes "h < 24"
  shows "parseInt (twoDigits h) = Some (int h)" and "CHR '':'' \<notin> set (twoDigits h)"
  using twoDigits_table assms by auto

lemma show_nat_12: "show_nat 12 = ''12''"
  by (simp add: show_nat.simps digitChar_def)

lemma formatTime_clock:
  assumes "h < 24" and "CHR '':'' \<notin> set mm"
  shows "formatTime (Some (twoDigits h @ '':'' @ mm)) =
     Some (show_nat (if h mod 12 = 0 then 12 else h mod 12) @ '':'' @ mm @
           (if h < 12 then '' AM'' else '' PM''))"
proof -
  let ?t = "twoDigits h @ '':'' @ mm"
  have inc: "str_includes ?t '':''"
    by (rule str_includes_mid)
  have ne: "?t \<noteq> []" by simp
  have sp: "str_split CHR '':'' ?t = [twoDigits h, mm]"
    using str_split_first[OF twoDigits_parse(2)[OF assms(1)], of mm] str_split_no_sep[OF assms(2)]
    by simp
  have ft: "formatTime (Some ?t) =
      (if int h = 0 then Some (''12:'' @ mm @ '' AM'')
       else if int h < 12 then Some (show_int (int h) @ '':'' @ mm @ '' AM'')
       else if int h = 12 then Some (''12:'' @ mm @ '' PM'')
       else Some (show_int (int h - 12) @ '':'' @ mm @ '' PM''))"
    unfolding formatTime_def Let_def
    by (simp only: option.case inc ne sp twoDigits_parse(1)[OF assms(1)] list.case simp_thms if_False)
  consider "h = 0" | "0 < h" "h < 12" | "h = 12" | "12 < h"
    by linarith
  then show ?thesis
  proof cases
    case 1
    then show ?thesis unfolding ft by (simp add: show_nat_12)
  next
    case 2
    then show ?thesis unfolding ft by (simp add: show_int_def)
  next
    case 3
    then show ?thesis unfolding ft by (simp add: show_nat_12)
  next
    case 4
    with assms(1) have "h mod 12 = h - 12" "h mod 12 \<noteq> 0"
      by (simp_all add: mod_if)
    with 4 show ?thesis unfolding ft by (simp add: show_int_def nat_diff_distrib')
  qed
qed

lemma formatTime_Some: "\<exists>t'. formatTime (Some t) = Some t'"
  by (simp add: formatTime_def Let_def split: option.splits)

lemma str_includes_app1: "str_includes h (a @ b) \<Longrightarrow> str_includes h a"
  unfolding str_includes_iff by (metis append.assoc)

lemma str_includes_app2: "str_includes h (a @ b) \<Longrightarrow> str_includes h b"
  unfolding str_includes_iff by (metis append.assoc)

lemma todayLine_times:
  assumes "ph_openingTime today = Some opening" "ph_closingTime today = Some closing"
    "opening \<noteq> []" "closing \<noteq> []"
    "formatTime (Some opening) = Some o12" "formatTime (Some closing) = Some c12"
  shows "todayLine today = (em_calendar @ '' **Today:** '') @ (o12 @ '' - '' @ c12) @ nl"
  using assms by (simp add: todayLine_def truthy_str_def tmpl_def)

lemma cachedHoursAnswer_today:
  assumes "ph_openingTime today = Some opening" "ph_closingTime today = Some closing"
    "opening \<noteq> []" "closing \<noteq> []"
    "formatTime (Some opening) = Some o12" "formatTime (Some closing) = Some c12"
  shows "str_includes (cachedHoursAnswer parkTitle today later) (o12 @ '' - '' @ c12)"
proof -
  have "str_includes (todayLine today) (o12 @ '' - '' @ c12)"
    unfolding todayLine_times[OF assms] by (rule str_includes_mid)
  then have "str_includes (todayLine today @ dateLine today @ tomorrowLine later @
     nl @ em_sparkles @
     '' These are today's official operating hours! Have a magical day! '' @ em_castle) (o12 @ '' - '' @ c12)"
    by (rule str_includes_appendI1)
  then have "str_includes ((em_clock @ '' **'' @ parkTitle @ '' Hours:**'' @ nl @ nl) @ todayLine today @ dateLine today @ tomorrowLine later @
     nl @ em_sparkles @
     '' These are today's official operating hours! Have a magical day! '' @ em_castle) (o12 @ '' - '' @ c12)"
    by (rule str_includes_appendI2)
  then show ?thesis
    unfolding cachedHoursAnswer_def by (simp only: append_assoc)
qed

lemma formatTime_nine: "formatTime (Some ''09:00'') = Some ''9:00 AM''"
  by (simp add: formatTime_def Let_def parseInt_def trimStart_def isWhiteSpace_def digitValue_def
        show_int_def show_nat.simps digitChar_def)

lemma tryPatternMatch_hours:
  assumes "find (scanAnswers s (toLowerCase input) (effectiveParkOf s contextPark))
             ATTRACTION_TO_PARK = None"
    and "effectiveParkOf s contextPark \<noteq> disneySprings"
    and "effectiveParkOf s contextPark \<noteq> resorts"
    and "isTimeQuery (analyzeQuery input)"
    and "\<not> isSpecificLocationTime (analyzeQuery input)"
    and "find (\<lambda>p. h_park p = park_id (effectiveParkOf s contextPark)) (allParkHours s) = Some entry"
    and "pl_hours (h_hours entry) = Some (today # later)"
  shows "tryPatternMatch s input contextPark =
             (Some (cachedHoursAnswer (PARK_NAMES (effectiveParkOf s contextPark)) today later), [])"
  using assms
  by (simp add: tryPatternMatch_def Let_def scan_find effectiveParkOf_def)

text \<open>
  Whatever the cached times are, as long as they are present and not empty, the hours answer
  shows them as \<^verbatim>\<open>formatTime\<close> renders them.
\<close>

lemma hours_answer_formatted:
  assumes "find (scanAnswers s (toLowerCase input) (effectiveParkOf s contextPark))
             ATTRACTION_TO_PARK = None"
    and "effectiveParkOf s contextPark \<noteq> disneySprings"
    and "effectiveParkOf s contextPark \<noteq> resorts"
    and "isTimeQuery (analyzeQuery input)"
    and "\<not> isSpecificLocationTime (analyzeQuery input)"
    and "find (\<lambda>p. h_park p = park_id (effectiveParkOf s contextPark)) (allParkHours s) = Some entry"
    and "pl_hours (h_hours entry) = Some (today # later)"
    and "ph_openingTime today = Some opening" and "opening \<noteq> []"
    and "ph_closingTime today = Some closing" and "closing \<noteq> []"
    and "formatTime (Some opening) = Some opening12"
    and "formatTime (Some closing) = Some closing12"
  shows "\<exists>answer.
           tryPatternMatch s input contextPark = (Some answer, []) \<and>
           str_includes answer opening12 \<and> str_includes answer closing12 \<and>
           str_includes answer (opening12 @ '' - '' @ closing12)"
proof -
  let ?answer = "cachedHoursAnswer (PARK_NAMES (effectiveParkOf s contextPark)) today later"
  have t: "tryPatternMatch s input contextPark = (Some ?answer, [])"
    using assms(1-7) by (rule tryPatternMatch_hours)
  have i: "str_includes ?answer (opening12 @ '' - '' @ closing12)"
    using cachedHoursAnswer_today[OF assms(8) assms(10) assms(9) assms(11) assms(12) assms(13)] .
  have i1: "str_includes ?answer opening12"
    using i by (rule str_includes_app1)
  have i2: "str_includes ?answer closing12"
    using str_includes_app2[OF str_includes_app2[OF i]] .
  show ?thesis using t i i1 i2 by blast
qed

lemma formatTime_twelveHourClock:
  assumes "h < 24" and "CHR '':'' \<notin> set mm"
  shows "formatTime (Some (twoDigits h @ '':'' @ mm)) = Some (twelveHourClock h mm)"
  unfolding twelveHourClock_def by (rule formatTime_clock[OF assms])

text \<open>
  Claim C5, as amended. Suppose the attraction scan does not answer, the effective park is
  neither Disney Springs nor the resorts, the input is a time query and not a time query about
  a specific venue, and the cached hours of the effective park start with an entry whose
  opening and closing times are 24-hour strings: an hour from 00 to 23 written with two
  digits, a colon, and the minutes. Then the pattern responder answers, sets no park, and the
  answer contains both times as 12-hour clock strings, the opening time and the closing time
  joined by a dash; these strings are what \<^verbatim>\<open>formatTime\<close> returns for the two cached times,
  and "09:00" is rendered as "9:00 AM".
\<close>

theorem cached_hours_answer:
  assumes "find (scanAnswers s (toLowerCase input) (effectiveParkOf s contextPark))
             ATTRACTION_TO_PARK = None"
    and "effectiveParkOf s contextPark \<noteq> disneySprings"
    and "effectiveParkOf s contextPark \<noteq> resorts"
    and "isTimeQuery (analyzeQuery input)"
    and "\<not> isSpecificLocationTime (analyzeQuery input)"
    and "find (\<lambda>p. h_park p = park_id (effectiveParkOf s contextPark)) (allParkHours s) = Some entry"
    and "pl_hours (h_hours entry) = Some (today # later)"
    and "ph_openingTime today = Some (twoDigits openHour @ '':'' @ openMinutes)"
    and "openHour < 24" and "CHR '':'' \<notin> set openMinutes"
    and "ph_closingTime today = Some (twoDigits closeHour @ '':'' @ closeMinutes)"
    and "closeHour < 24" and "CHR '':'' \<notin> set closeMinutes"
  shows "(\<exists>answer.
            tryPatternMatch s input contextPark = (Some answer, []) \<and>
            str_includes answer (twelveHourClock openHour openMinutes) \<and>
            str_includes answer (twelveHourClock closeHour closeMinutes) \<and>
            str_includes answer
              (twelveHourClock openHour openMinutes @ '' - '' @
               twelveHourClock closeHour closeMinutes)) \<and>
         formatTime (Some (twoDigits openHour @ '':'' @ openMinutes)) =
           Some (twelveHourClock openHour openMinutes) \<and>
         formatTime (Some (twoDigits closeHour @ '':'' @ closeMinutes)) =
           Some (twelveHourClock closeHour closeMinutes) \<and>
         formatTime (Some ''09:00'') = Some ''9:00 AM''"
proof -
  have o: "formatTime (Some (twoDigits openHour @ '':'' @ openMinutes)) =
             Some (twelveHourClock openHour openMinutes)"
    using assms(9) assms(10) by (rule formatTime_twelveHourClock)
  have c: "formatTime (Some (twoDigits closeHour @ '':'' @ closeMinutes)) =
             Some (twelveHourClock closeHour closeMinutes)"
    using assms(12) assms(13) by (rule formatTime_twelveHourClock)
  have ne: "twoDigits openHour @ '':'' @ openMinutes \<noteq> []"
    "twoDigits closeHour @ '':'' @ closeMinutes \<noteq> []"
    by simp_all
  have "\<exists>answer.
           tryPatternMatch s input contextPark = (Some answer, []) \<and>
           str_includes answer (twelveHourClock openHour openMinutes) \<and>
           str_includes answer (twelveHourClock closeHour closeMinutes) \<and>
           str_includes answer
             (twelveHourClock openHour openMinutes @ '' - '' @
              twelveHourClock closeHour closeMinutes)"
    using hours_answer_formatted[OF assms(1-8) ne(1) assms(11) ne(2) o c] .
  then show ?thesis using o c formatTime_nine by blast
qed

lemma hours_question_no_scan:
  "find (scanAnswers hoursSession (toLowerCase ''what are the park hours'')
           (effectiveParkOf hoursSession None)) ATTRACTION_TO_PARK = None"
  by (simp add: ATTRACTION_TO_PARK_def scanAnswers_def lower_eval)

lemma hours_question_analysis:
  "isTimeQuery (analyzeQuery ''what are the park hours'') \<and>
   \<not> isSpecificLocationTime (analyzeQuery ''what are the park hours'')"
  by (simp add: analyzeQuery_def lower_eval)

lemma hoursSession_fields:
  "effectiveParkOf hoursSession None = magicKingdom"
  "allParkHours hoursSession = [magicKingdomHours]"
  "allAttractions hoursSession = [spaceMountain]"
  "currentPark hoursSession = magicKingdom"
  by (simp_all add: hoursSession_def blankSession_def effectiveParkOf_def)

lemma formatTime_ten: "formatTime (Some ''22:00'') = Some ''10:00 PM''"
  by (simp add: formatTime_def Let_def parseInt_def trimStart_def isWhiteSpace_def digitValue_def
        show_int_def show_nat.simps digitChar_def)

lemma clock_samples:
  "twoDigits 9 @ '':'' @ ''00'' = ''09:00''"
  "twoDigits 22 @ '':'' @ ''00'' = ''22:00''"
  "twelveHourClock 9 ''00'' = ''9:00 AM''"
  "twelveHourClock 22 ''00'' = ''10:00 PM''"
  by (simp_all add: twoDigits_def twelveHourClock_def show_nat.simps digitChar_def)

lemma twoDigits_samples: "twoDigits 9 = ''09''" "twoDigits 22 = ''22''"
  by (simp_all add: twoDigits_def show_nat.simps digitChar_def)

text \<open>
  The theorem at a session whose Magic Kingdom hours are 09:00 to 22:00: the answer shows
  "9:00 AM - 10:00 PM".
\<close>

theorem cached_hours_answer_witness:
  "find (scanAnswers hoursSession (toLowerCase ''what are the park hours'')
           (effectiveParkOf hoursSession None)) ATTRACTION_TO_PARK = None \<and>
   effectiveParkOf hoursSession None \<noteq> disneySprings \<and>
   effectiveParkOf hoursSession None \<noteq> resorts \<and>
   isTimeQuery (analyzeQuery ''what are the park hours'') \<and>
   \<not> isSpecificLocationTime (analyzeQuery ''what are the park hours'') \<and>
   find (\<lambda>p. h_park p = park_id (effectiveParkOf hoursSession None)) (allParkHours hoursSession)
     = Some magicKingdomHours \<and>
   pl_hours (h_hours magicKingdomHours)
     = Some [\<lparr> ph_date = Some ''2025-03-01'', ph_openingTime = Some ''09:00'',
                ph_closingTime = Some ''22:00'' \<rparr>] \<and>
   twoDigits 9 @ '':'' @ ''00'' = ''09:00'' \<and> (9::nat) < 24 \<and> CHR '':'' \<notin> set ''00'' \<and>
   twoDigits 22 @ '':'' @ ''00'' = ''22:00'' \<and> (22::nat) < 24 \<and>
   (\<exists>answer.
      tryPatternMatch hoursSession ''what are the park hours'' None = (Some answer, []) \<and>
      str_includes answer ''9:00 AM'' \<and> str_includes answer ''10:00 PM'' \<and>
      str_includes answer ''9:00 AM - 10:00 PM'') \<and>
   formatTime (Some ''09:00'') = Some ''9:00 AM'' \<and>
   formatTime (Some ''22:00'') = Some ''10:00 PM''"
proof -
  let ?today = "\<lparr> ph_date = Some ''2025-03-01'', ph_openingTime = Some ''09:00'',
                   ph_closingTime = Some ''22:00'' \<rparr>"
  have h6: "find (\<lambda>p. h_park p = park_id (effectiveParkOf hoursSession None))
              (allParkHours hoursSession) = Some magicKingdomHours"
    by (simp add: hoursSession_fields magicKingdomHours_def)
  have h7: "pl_hours (h_hours magicKingdomHours) = Some (?today # [])"
    by (simp add: magicKingdomHours_def)
  have o: "ph_openingTime ?today = Some (twoDigits 9 @ '':'' @ ''00'')"
    and c: "ph_closingTime ?today = Some (twoDigits 22 @ '':'' @ ''00'')"
    by (simp_all add: twoDigits_samples)
  have m: "CHR '':'' \<notin> set ''00''" by simp
  have n: "(9::nat) < 24" "(22::nat) < 24" by simp_all
  note t = cached_hours_answer[OF hours_question_no_scan _ _ _ _ h6 h7 o n(1) m c n(2) m]
  have r: "(\<exists>answer.
            tryPatternMatch hoursSession ''what are the park hours'' None = (Some answer, []) \<and>
            str_includes answer (twelveHourClock 9 ''00'') \<and>
            str_includes answer (twelveHourClock 22 ''00'') \<and>
            str_includes answer (twelveHourClock 9 ''00'' @ '' - '' @ twelveHourClock 22 ''00'')) \<and>
         formatTime (Some (twoDigits 9 @ '':'' @ ''00'')) = Some (twelveHourClock 9 ''00'') \<and>
         formatTime (Some (twoDigits 22 @ '':'' @ ''00'')) = Some (twelveHourClock 22 ''00'') \<and>
         formatTime (Some ''09:00'') = Some ''9:00 AM''"
    by (rule t) (simp_all add: hoursSession_fields hours_question_analysis)
  have r': "(\<exists>answer.
      tryPatternMatch hoursSession ''what are the park hours'' None = (Some answer, []) \<and>
      str_includes answer ''9:00 AM'' \<and> str_includes answer ''10:00 PM'' \<and>
      str_includes answer ''9:00 AM - 10:00 PM'') \<and>
   formatTime (Some ''09:00'') = Some ''9:00 AM'' \<and>
   formatTime (Some ''22:00'') = Some ''10:00 PM''"
    using r unfolding clock_samples by simp
  show ?thesis
    using hours_question_no_scan hours_question_analysis h6 h7 r' clock_samples(1,2) m n
    by (simp add: hoursSession_fields)
qed

lemma open_question_scan:
  "find (scanAnswers hoursSession (toLowerCase ''what time does space mountain open'')
           (effectiveParkOf hoursSession None)) ATTRACTION_TO_PARK
     = Some (''space mountain'', magicKingdom)"
  by (simp add: ATTRACTION_TO_PARK_def scanAnswers_def liveRecord_def hoursSession_fields
        spaceMountain_def lower_eval)

text \<open>
  Claim C5 as stated fails: "what time does space mountain open" is a time query, the pattern
  responder answers it, and the park has cached hours with both times, yet the answer is the
  wait-time answer of the attraction scan, which comes first, and shows no opening time.
\<close>

theorem time_query_counterexample:
  "isTimeQuery (analyzeQuery ''what time does space mountain open'') \<and>
   find (\<lambda>p. h_park p = park_id (effectiveParkOf hoursSession None)) (allParkHours hoursSession)
     = Some magicKingdomHours \<and>
   pl_hours (h_hours magicKingdomHours)
     = Some [\<lparr> ph_date = Some ''2025-03-01'', ph_openingTime = Some ''09:00'',
                ph_closingTime = Some ''22:00'' \<rparr>] \<and>
   formatTime (Some ''09:00'') = Some ''9:00 AM'' \<and>
   fst (tryPatternMatch hoursSession ''what time does space mountain open'' None)
     = Some (waitAnswer spaceMountain magicKingdom magicKingdom) \<and>
   \<not> str_includes (waitAnswer spaceMountain magicKingdom magicKingdom) ''9:00 AM''"
proof -
  have a: "isTimeQuery (analyzeQuery ''what time does space mountain open'')"
    by (simp add: analyzeQuery_def lower_eval)
  have b: "find (\<lambda>p. h_park p = park_id (effectiveParkOf hoursSession None))
              (allParkHours hoursSession) = Some magicKingdomHours"
    by (simp add: hoursSession_fields magicKingdomHours_def)
  have c: "pl_hours (h_hours magicKingdomHours)
     = Some [\<lparr> ph_date = Some ''2025-03-01'', ph_openingTime = Some ''09:00'',
                ph_closingTime = Some ''22:00'' \<rparr>]"
    by (simp add: magicKingdomHours_def)
  have d: "fst (tryPatternMatch hoursSession ''what time does space mountain open'' None)
     = Some (waitAnswer spaceMountain magicKingdom magicKingdom)"
    unfolding tryPatternMatch_scan[OF open_question_scan]
    by (simp add: scanResult_def liveRecord_def hoursSession_fields spaceMountain_def lower_eval)
  have e: "\<not> str_includes (waitAnswer spaceMountain magicKingdom magicKingdom) ''9:00 AM''"
    by (simp add: waitAnswer_def spaceMountain_def show_int_def show_nat_45 str_or_def
          switchedNote_def em_coaster_def em_bolt_def em_castle_def em_sparkles_def nl_def)
  show ?thesis using a b c d e formatTime_nine by simp
qed

section \<open>The scan behind a queued park switch\<close>

lemma epcot_question_scan:
  "find (scanAnswers hoursSession (toLowerCase ''is space mountain at epcot'')
           (effectiveParkOf hoursSession (Some epcot))) ATTRACTION_TO_PARK
     = Some (''space mountain'', magicKingdom)"
  by (simp add: ATTRACTION_TO_PARK_def scanAnswers_def liveRecord_def hoursSession_fields
        spaceMountain_def lower_eval)

text \<open>
  Inside \<^verbatim>\<open>processUserInput\<close> a switch to the target park may already be queued when the
  scan runs. The scan then compares the owning park with the current park of the render, finds
  them equal and queues nothing, so the queued target park stays: asked "is space mountain at
  epcot" in Magic Kingdom, the answer places the ride at Magic Kingdom and announces a switch,
  and the current park becomes EPCOT.
\<close>

lemma pending_switch_survives:
  "r_response (processUserInput hoursSession provider ''is space mountain at epcot'')
     = Inr (JStr (waitAnswer spaceMountain magicKingdom epcot)) \<and>
   str_includes (waitAnswer spaceMountain magicKingdom epcot) ''Located at Magic Kingdom'' \<and>
   str_includes (waitAnswer spaceMountain magicKingdom epcot) ''(Switched parks for you!)'' \<and>
   r_parkCalls (processUserInput hoursSession provider ''is space mountain at epcot'') = [epcot] \<and>
   parkAfter (currentPark hoursSession)
     (r_parkCalls (processUserInput hoursSession provider ''is space mountain at epcot'')) = epcot"
proof -
  have rt: "resolveTarget hoursSession ''is space mountain at epcot'' = epcot"
    by (simp add: resolveTarget_def analyzeQuery_def lower_eval)
  have tpm: "tryPatternMatch hoursSession ''is space mountain at epcot'' (Some epcot) =
               (Some (waitAnswer spaceMountain magicKingdom epcot), [])"
    unfolding tryPatternMatch_scan[OF epcot_question_scan]
    by (simp add: scanResult_def liveRecord_def hoursSession_fields spaceMountain_def lower_eval
          effectiveParkOf_def)
  have pui: "processUserInput hoursSession provider ''is space mountain at epcot'' =
       \<lparr> r_response = Inr (JStr (waitAnswer spaceMountain magicKingdom epcot)),
         r_parkCalls = [epcot], r_requests = [],
         r_context = lastFour (conversationContext hoursSession) @ [''is space mountain at epcot''] \<rparr>"
    using processUserInput_pattern[of hoursSession "''is space mountain at epcot''"
            "waitAnswer spaceMountain magicKingdom epcot" "[]" provider]
    by (simp add: rt tpm waitAnswer_nonempty hoursSession_fields)
  have inc: "str_includes (waitAnswer spaceMountain magicKingdom epcot) ''Located at Magic Kingdom''"
    "str_includes (waitAnswer spaceMountain magicKingdom epcot) ''(Switched parks for you!)''"
    by (simp_all add: waitAnswer_def spaceMountain_def show_int_def show_nat_45 str_or_def
          switchedNote_def em_coaster_def em_bolt_def em_castle_def em_sparkles_def nl_def)
  show ?thesis using pui inc by (simp add: parkAfter_def)
qed

section \<open>Determinism of the pattern responder\<close>

lemma liveRecord_cong:
  "allAttractions s1 = allAttractions s2 \<Longrightarrow> liveRecord s1 k p = liveRecord s2 k p"
  by (simp add: liveRecord_def)

lemma scanAttractions_cong:
  assumes "allAttractions s1 = allAttractions s2" and "currentPark s1 = currentPark s2"
  shows "scanAttractions s1 l eff es = scanAttractions s2 l eff es"
proof (induction es)
  case Nil
  then show ?case by simp
next
  case (Cons e es)
  obtain k p where e: "e = (k, p)" by (cases e)
  show ?case
    using Cons.IH assms(2)
    by (simp add: e liveRecord_cong[OF assms(1)] split: option.splits)
qed

text \<open>
  Claim C6. The result of the pattern responder, answer and park calls alike, depends on the
  session only through the cached attractions, the cached park hours and the current park: two
  sessions that agree on these three give the same result for the same input, whatever else
  differs between them (messages, busy flag, draft text, context buffer, cached entertainment
  and character meets). This holds for a call with any shared context park, and for the call
  \<^verbatim>\<open>processUserInput\<close> makes, whose context park is itself computed from the input and
  the current park.
\<close>

theorem tryPatternMatch_deterministic:
  assumes "allAttractions s1 = allAttractions s2"
    and "allParkHours s1 = allParkHours s2"
    and "currentPark s1 = currentPark s2"
  shows "tryPatternMatch s1 input contextPark = tryPatternMatch s2 input contextPark \<and>
         tryPatternMatch s1 input (Some (resolveTarget s1 input)) =
           tryPatternMatch s2 input (Some (resolveTarget s2 input))"
proof -
  have a: "tryPatternMatch s1 input cp = tryPatternMatch s2 input cp" for cp
    unfolding tryPatternMatch_def Let_def
    by (simp only: scanAttractions_cong[OF assms(1) assms(3)] assms(2) assms(3))
  have b: "resolveTarget s1 input = resolveTarget s2 input"
    by (simp add: resolveTarget_def assms(3) split: option.splits)
  show ?thesis using a b by simp
qed

text \<open>
  The theorem at two different sessions that share the attraction cache, the hours cache and
  the current park.
\<close>

theorem tryPatternMatch_deterministic_witness:
  "allAttractions hoursSession = allAttractions busyHoursSession \<and>
   allParkHours hoursSession = allParkHours busyHoursSession \<and>
   currentPark hoursSession = currentPark busyHoursSession \<and>
   hoursSession \<noteq> busyHoursSession \<and>
   tryPatternMatch hoursSession ''what are the park hours'' None =
     tryPatternMatch busyHoursSession ''what are the park hours'' None \<and>
   tryPatternMatch hoursSession ''what are the park hours''
       (Some (resolveTarget hoursSession ''what are the park hours'')) =
     tryPatternMatch busyHoursSession ''what are the park hours''
       (Some (resolveTarget busyHoursSession ''what are the park hours''))"
proof -
  have h: "allAttractions hoursSession = allAttractions busyHoursSession"
    "allParkHours hoursSession = allParkHours busyHoursSession"
    "currentPark hoursSession = currentPark busyHoursSession"
    by (simp_all add: busyHoursSession_def)
  have d: "hoursSession \<noteq> busyHoursSession"
  proof
    assume "hoursSession = busyHoursSession"
    then have "isLoading hoursSession = isLoading busyHoursSession" by simp
    then show False by (simp add: busyHoursSession_def hoursSession_def blankSession_def)
  qed
  show ?thesis
    using tryPatternMatch_deterministic[OF h, of "''what are the park hours''" None] h d
    by simp
qed

section \<open>Who changes the current park\<close>

lemma processUserInput_parkCalls:
  "r_parkCalls (processUserInput s provider input) =
     (if resolveTarget s input \<noteq> currentPark s then [resolveTarget s input] else []) @
     snd (tryPatternMatch s input (Some (resolveTarget s input)))"
  by (simp add: processUserInput_def Let_def split: prod.splits sum.splits)

text \<open>
  Claim C7, as amended. While a message is resolved the current park is changed at two places
  only: the switch to the target park that \<^verbatim>\<open>processUserInput\<close> makes before it calls the
  pattern responder, and the attraction scan of the pattern responder. The calls
  \<^verbatim>\<open>processUserInput\<close> makes are exactly these, in this order, whatever the completion
  provider does; and the current park after \<^verbatim>\<open>sendMessage\<close> is the park before it when the
  submission is rejected, and otherwise the result of applying these calls. The query analyzer
  is a function of the input alone, and neither the fallback composer nor \<^verbatim>\<open>sendMessage\<close>
  adds a call.
\<close>

theorem park_changes_only_before_fallback:
  "r_parkCalls (processUserInput s provider input) =
     (if resolveTarget s input \<noteq> currentPark s then [resolveTarget s input] else []) @
     snd (tryPatternMatch s input (Some (resolveTarget s input))) \<and>
   currentPark (fst (sendMessage s provider env messageText)) =
     (if textToSend s messageText = [] \<or> isLoading s then currentPark s
      else parkAfter (currentPark s)
             ((if resolveTarget s (textToSend s messageText) \<noteq> currentPark s
               then [resolveTarget s (textToSend s messageText)] else []) @
              snd (tryPatternMatch s (textToSend s messageText)
                     (Some (resolveTarget s (textToSend s messageText))))))"
  by (simp add: processUserInput_parkCalls sendMessage_def Let_def)

lemma shows_question:
  "resolveTarget blankSession ''what shows are at epcot today'' = epcot"
  "tryPatternMatch blankSession ''what shows are at epcot today'' (Some epcot) = (None, [])"
proof -
  show "resolveTarget blankSession ''what shows are at epcot today'' = epcot"
    by (simp add: resolveTarget_def analyzeQuery_def lower_eval)
  have "find (scanAnswers blankSession (toLowerCase ''what shows are at epcot today'') epcot)
          ATTRACTION_TO_PARK = None"
    by (simp add: ATTRACTION_TO_PARK_def scanAnswers_def lower_eval)
  then show "tryPatternMatch blankSession ''what shows are at epcot today'' (Some epcot) = (None, [])"
    by (simp add: tryPatternMatch_def Let_def scan_find)
       (simp add: analyzeQuery_def lower_eval)
qed

text \<open>
  Claim C7 as stated fails: for "what shows are at epcot today" with Magic Kingdom current,
  the pattern responder makes no call, yet \<^verbatim>\<open>processUserInput\<close> switches the current park
  to EPCOT.
\<close>

theorem park_switch_counterexample:
  "currentPark blankSession = magicKingdom \<and>
   snd (tryPatternMatch blankSession ''what shows are at epcot today''
          (Some (resolveTarget blankSession ''what shows are at epcot today''))) = [] \<and>
   r_parkCalls (processUserInput blankSession unreachableProvider ''what shows are at epcot today'')
     = [epcot] \<and>
   currentPark (fst (sendMessage blankSession unreachableProvider sampleEnv
                       (Some ''what shows are at epcot today''))) = epcot"
proof -
  have a: "currentPark blankSession = magicKingdom" "\<not> isLoading blankSession"
    by (simp_all add: blankSession_def)
  have b: "r_parkCalls (processUserInput blankSession unreachableProvider ''what shows are at epcot today'') = [epcot]"
    by (simp add: processUserInput_parkCalls shows_question a)
  have c: "textToSend blankSession (Some ''what shows are at epcot today'') = ''what shows are at epcot today''"
    by (simp add: textToSend_def truthy_str_def tmpl_def)
  have d: "currentPark (fst (sendMessage blankSession unreachableProvider sampleEnv
                       (Some ''what shows are at epcot today''))) = epcot"
    by (simp add: sendMessage_def Let_def c a b parkAfter_def)
  show ?thesis using a b d by (simp add: shows_question)
qed

section \<open>Rejected submissions\<close>

lemma trim_whitespace: "(\<forall>c \<in> set t. isWhiteSpace c) \<Longrightarrow> trim t = []"
proof -
  assume "\<forall>c \<in> set t. isWhiteSpace c"
  then have "dropWhile isWhiteSpace t = []" by simp
  then show ?thesis unfolding trim_def by (simp only: rev.simps dropWhile.simps)
qed

text \<open>
  A submission that is accepted appends two messages, so leaving the list alone is particular
  to the rejected ones.
\<close>

lemma sendMessage_appends:
  assumes "textToSend s messageText \<noteq> []" and "\<not> isLoading s"
  shows "length (messages (fst (sendMessage s provider env messageText))) = length (messages s) + 2"
  using assms by (simp add: sendMessage_def Let_def)

text \<open>
  Claim C4. When no message text is passed (or an empty one) and the input field holds only
  white space, or when a resolution is in flight, \<^verbatim>\<open>sendMessage\<close> returns the session as it
  was and sends no completion request: no user message, no assistant message and no apology
  is appended, and neither the current park nor the context buffer is touched.
\<close>

theorem rejects_empty_or_busy:
  assumes "(\<not> truthy_str messageText \<and> list_all isWhiteSpace (inputText s)) \<or> isLoading s"
  shows "sendMessage s provider env messageText = (s, [])"
  using assms by (auto simp: sendMessage_def textToSend_def Let_def trim_whitespace list_all_iff)

text \<open>
  The theorem at a blank draft, with and without an empty message text, and at a busy session.
\<close>

theorem rejects_empty_or_busy_witness:
  "\<not> truthy_str None \<and> list_all isWhiteSpace (inputText blankDraftSession) \<and>
   sendMessage blankDraftSession unreachableProvider sampleEnv None = (blankDraftSession, []) \<and>
   \<not> truthy_str (Some []) \<and>
   sendMessage blankDraftSession unreachableProvider sampleEnv (Some []) = (blankDraftSession, []) \<and>
   isLoading busyHoursSession \<and>
   sendMessage busyHoursSession unreachableProvider sampleEnv (Some ''any hours today?'')
     = (busyHoursSession, [])"
proof -
  have a: "\<not> truthy_str None" "\<not> truthy_str (Some [])" by (simp_all add: truthy_str_def)
  have b: "list_all isWhiteSpace (inputText blankDraftSession)"
    by (simp add: blankDraftSession_def blankSession_def isWhiteSpace_def)
  have c: "isLoading busyHoursSession" by (simp add: busyHoursSession_def)
  show ?thesis
    using rejects_empty_or_busy[of None blankDraftSession unreachableProvider sampleEnv]
      rejects_empty_or_busy[of "Some []" blankDraftSession unreachableProvider sampleEnv]
      rejects_empty_or_busy[of "Some ''any hours today?''" busyHoursSession unreachableProvider sampleEnv]
      a b c by simp
qed

section \<open>The fallback composer\<close>

lemma processUserInput_unfold:
  "processUserInput s provider input =
     (if truthy_str (fst (tryPatternMatch s input (Some (resolveTarget s input)))) then
        \<lparr> r_response = Inr (JStr (tmpl (fst (tryPatternMatch s input (Some (resolveTarget s input)))))),
          r_parkCalls =
            (if resolveTarget s input \<noteq> currentPark s then [resolveTarget s input] else []) @
            snd (tryPatternMatch s input (Some (resolveTarget s input))),
          r_requests = [], r_context = lastFour (conversationContext s) @ [input] \<rparr>
      else if resolveTarget s input = disneySprings then
        \<lparr> r_response = Inr (JStr springsStaticAnswer),
          r_parkCalls =
            (if resolveTarget s input \<noteq> currentPark s then [resolveTarget s input] else []) @
            snd (tryPatternMatch s input (Some (resolveTarget s input))),
          r_requests = [], r_context = lastFour (conversationContext s) @ [input] \<rparr>
      else if resolveTarget s input = resorts then
        \<lparr> r_response = Inr (JStr resortsStaticAnswer),
          r_parkCalls =
            (if resolveTarget s input \<noteq> currentPark s then [resolveTarget s input] else []) @
            snd (tryPatternMatch s input (Some (resolveTarget s input))),
          r_requests = [], r_context = lastFour (conversationContext s) @ [input] \<rparr>
      else
        \<lparr> r_response =
            Inr (case readCompletion (provider (aiPrompt s (resolveTarget s input) input)) of
                   Inr aiResponse \<Rightarrow> aiResponse
                 | Inl e \<Rightarrow> JStr (fallbackAnswer s (analyzeQuery input) (resolveTarget s input))),
          r_parkCalls =
            (if resolveTarget s input \<noteq> currentPark s then [resolveTarget s input] else []) @
            snd (tryPatternMatch s input (Some (resolveTarget s input))),
          r_requests = [aiPrompt s (resolveTarget s input) input],
          r_context = lastFour (conversationContext s) @ [input] \<rparr>)"
  by (auto simp: processUserInput_def Let_def split: prod.splits sum.splits)

lemma readCompletion_truthy: "readCompletion outcome = Inr v \<Longrightarrow> truthy v"
  by (auto simp: readCompletion_def js_or_def truthy_def placeholderAnswer_def
      split: fetch_outcome.splits http_body.splits sum.splits if_splits)

lemma fallbackAnswer_nonempty: "fallbackAnswer s a t \<noteq> []"
  by (simp add: fallbackAnswer_def Let_def em_masks_def em_fairy_def em_castle_def em_sparkles_def)

lemma static_answers_nonempty: "springsStaticAnswer \<noteq> []" "resortsStaticAnswer \<noteq> []"
  by (simp_all add: springsStaticAnswer_def resortsStaticAnswer_def em_bags_def em_hotel_def)

text \<open>
  Whatever the completion provider does, \<^verbatim>\<open>processUserInput\<close> returns a value and never
  throws, the value is truthy, and at most one completion request is sent, exactly one whenever
  the fallback composer is reached. The value is a non-empty string whenever the content read
  from the response is a string.
\<close>

lemma processUserInput_never_raises:
  "\<exists>v. r_response (processUserInput s provider input) = Inr v \<and> truthy v"
proof -
  have "truthy (case readCompletion outcome of
                   Inr aiResponse \<Rightarrow> aiResponse
                 | Inl e \<Rightarrow> JStr (fallbackAnswer s a t))" for outcome a t
    by (auto simp: truthy_def fallbackAnswer_nonempty dest: readCompletion_truthy split: sum.splits)
  then show ?thesis
    unfolding processUserInput_unfold
    by (simp add: truthy_def truthy_str_def tmpl_def static_answers_nonempty split: option.splits)
qed

lemma processUserInput_single_attempt:
  "r_requests (processUserInput s provider input) = [] \<or>
   r_requests (processUserInput s provider input) = [aiPrompt s (resolveTarget s input) input]"
  unfolding processUserInput_unfold by simp

lemma processUserInput_reaches_provider:
  assumes "\<not> truthy_str (fst (tryPatternMatch s input (Some (resolveTarget s input))))"
    and "resolveTarget s input \<noteq> disneySprings" and "resolveTarget s input \<noteq> resorts"
  shows "r_requests (processUserInput s provider input) = [aiPrompt s (resolveTarget s input) input]"
  unfolding processUserInput_unfold using assms by simp

lemma processUserInput_string:
  assumes "\<And>v. readCompletion (provider (aiPrompt s (resolveTarget s input) input)) = Inr v
             \<Longrightarrow> \<exists>t. v = JStr t"
  shows "\<exists>t. r_response (processUserInput s provider input) = Inr (JStr t) \<and> t \<noteq> []"
proof -
  obtain v where v: "r_response (processUserInput s provider input) = Inr v" "truthy v"
    using processUserInput_never_raises by blast
  have "\<exists>t. v = JStr t"
    using v(1) assms unfolding processUserInput_unfold
    by (auto split: if_splits sum.splits)
  then obtain t where "v = JStr t" by blast
  with v show ?thesis by (auto simp: truthy_def)
qed

lemma fun_question:
  "resolveTarget blankSession ''tell me something fun'' = magicKingdom"
  "tryPatternMatch blankSession ''tell me something fun'' (Some magicKingdom) = (None, [])"
proof -
  show "resolveTarget blankSession ''tell me something fun'' = magicKingdom"
    by (simp add: resolveTarget_def analyzeQuery_def lower_eval blankSession_def)
  have "find (scanAnswers blankSession (toLowerCase ''tell me something fun'') magicKingdom)
          ATTRACTION_TO_PARK = None"
    by (simp add: ATTRACTION_TO_PARK_def scanAnswers_def lower_eval)
  then show "tryPatternMatch blankSession ''tell me something fun'' (Some magicKingdom) = (None, [])"
    by (simp add: tryPatternMatch_def Let_def scan_find)
       (simp add: analyzeQuery_def lower_eval)
qed

lemma numeric_completion: "readCompletion (numericProvider prompt) = Inr (JNum 42)"
  by (simp add: readCompletion_def numericProvider_def numericContentBody_def response_ok_def
        getProp_def getIndex0_def optProp_def lookupKey_def js_or_def truthy_def)

text \<open>
  Claim C3 at a response the code does not turn into a string. The provider answers with
  status 200 and a body whose first choice has the number 42 as its content. The selection
  \<^verbatim>\<open>aiData.choices[0]?.message?.content || '...'\<close> keeps any truthy content, so
  \<^verbatim>\<open>processUserInput\<close> returns the number after its single request, and \<^verbatim>\<open>sendMessage\<close>
  stores it as the text of the assistant message.
\<close>

theorem completion_content_not_string:
  "r_response (processUserInput blankSession numericProvider ''tell me something fun'')
     = Inr (JNum 42) \<and>
   r_requests (processUserInput blankSession numericProvider ''tell me something fun'')
     = [aiPrompt blankSession magicKingdom ''tell me something fun''] \<and>
   m_text (last (messages (fst (sendMessage blankSession numericProvider sampleEnv
                                   (Some ''tell me something fun''))))) = JNum 42"
proof -
  have cur: "currentPark blankSession = magicKingdom" by (simp add: blankSession_def)
  have a: "processUserInput blankSession numericProvider ''tell me something fun'' =
     \<lparr> r_response = Inr (JNum 42), r_parkCalls = [],
       r_requests = [aiPrompt blankSession magicKingdom ''tell me something fun''],
       r_context = lastFour (conversationContext blankSession) @ [''tell me something fun''] \<rparr>"
    unfolding processUserInput_unfold
    by (simp add: fun_question truthy_str_def numeric_completion cur)
  have c: "textToSend blankSession (Some ''tell me something fun'') = ''tell me something fun''"
    by (simp add: textToSend_def truthy_str_def tmpl_def)
  have d: "\<not> isLoading blankSession" by (simp add: blankSession_def)
  have e: "m_text (last (messages (fst (sendMessage blankSession numericProvider sampleEnv
                                   (Some ''tell me something fun''))))) = JNum 42"
    by (simp add: sendMessage_def Let_def c d a)
  show ?thesis using a e by simp
qed

section \<open>Normalized attractions\<close>

text \<open>
  Every attraction that \<^verbatim>\<open>normalizeAttractions\<close> produces carries the requested park, a
  wait time that is the payload's number or 0, an open flag that is false only for the payload
  value \<^verbatim>\<open>false\<close>, and a truthy name; the name is a non-empty string whenever the payload
  name is a string or is falsy.
\<close>

lemma normalizeOne_normalizedFrom:
  "normalizeOne pid nowIso i raw = Inr a \<Longrightarrow> normalizedFrom pid raw a"
  by (auto simp: normalizedFrom_def normalizeOne_def js_or_def truthy_def split: sum.splits)

lemma normalizeFrom_all:
  "normalizeFrom pid nowIso i raws = Inr as \<Longrightarrow> list_all2 (normalizedFrom pid) raws as"
proof (induction raws arbitrary: i as)
  case Nil
  then show ?case by simp
next
  case (Cons raw raws)
  then show ?case
    by (auto simp: normalizeOne_normalizedFrom split: sum.splits)
qed

lemma normalizeAttractions_all:
  "normalizeAttractions (JArr raws) pid nowIso = Inr as \<Longrightarrow> list_all2 (normalizedFrom pid) raws as"
  by (simp add: normalizeAttractions_def normalizeFrom_all)

lemma normalizedFrom_string_name:
  "normalizedFrom pid raw a \<Longrightarrow> optProp raw ''name'' = JStr t \<Longrightarrow>
     n_name a = JStr (if t = [] then ''Unknown Attraction'' else t)"
  by (auto simp: normalizedFrom_def js_or_def truthy_def)

text \<open>
  Claim C10 at a payload the code does not turn into a string name. The entry's name is the
  number 42; \<^verbatim>\<open>attraction.name || 'Unknown Attraction'\<close> keeps every truthy value, so the
  normalized record has the number as its name, while the wait time next to it is checked with
  \<^verbatim>\<open>typeof\<close>. The record reaches the caller of \<^verbatim>\<open>getWaitTimes\<close> unchanged.
\<close>

theorem normalized_name_not_string:
  "normalizeAttractions (JArr [rawNumberName]) MagicKingdom ''2025-03-01T09:00:00.000Z'' =
     Inr [\<lparr> n_id = ''magicKingdom-sm'', n_name = JNum 42, n_land = JStr ''Unknown Area'',
             n_waitTime = 30, n_isOpen = True, n_hasLightningLane = JBool False,
             n_lastUpdated = JStr ''2025-03-01T09:00:00.000Z'', n_park = MagicKingdom \<rparr>] \<and>
   getWaitTimes MagicKingdom
       (Responded 200 (Json (JObj [(''attractions'', JArr [rawNumberName])])))
       ''2025-03-01T09:00:00.000Z'' =
     Inr \<lparr> pd_parkName = ''Magic Kingdom'', pd_parkId = MagicKingdom,
           pd_attractions =
             [\<lparr> n_id = ''magicKingdom-sm'', n_name = JNum 42, n_land = JStr ''Unknown Area'',
                n_waitTime = 30, n_isOpen = True, n_hasLightningLane = JBool False,
                n_lastUpdated = JStr ''2025-03-01T09:00:00.000Z'', n_park = MagicKingdom \<rparr>],
           pd_lastUpdated = ''2025-03-01T09:00:00.000Z'', pd_source = ''disney_proxy'' \<rparr>"
proof -
  have a: "normalizeAttractions (JArr [rawNumberName]) MagicKingdom ''2025-03-01T09:00:00.000Z'' =
     Inr [\<lparr> n_id = ''magicKingdom-sm'', n_name = JNum 42, n_land = JStr ''Unknown Area'',
             n_waitTime = 30, n_isOpen = True, n_hasLightningLane = JBool False,
             n_lastUpdated = JStr ''2025-03-01T09:00:00.000Z'', n_park = MagicKingdom \<rparr>]"
    by (simp add: normalizeAttractions_def normalizeOne_def rawNumberName_def getProp_def
          optProp_def lookupKey_def js_or_def truthy_def)
  have b: "js_or (JArr [rawNumberName]) (JArr []) = JArr [rawNumberName]"
    by (simp add: js_or_def truthy_def)
  show ?thesis
    by (simp add: a b getWaitTimes_def Let_def response_ok_def getProp_def lookupKey_def)
qed

section \<open>Feedback\<close>

lemma attachFeedback_id: "m_id (attachFeedback messageId fb m) = m_id m"
  by (simp add: attachFeedback_def)

lemma attachFeedback_text: "m_text (attachFeedback messageId fb m) = m_text m"
  by (simp add: attachFeedback_def)

lemma find_attach:
  "find (\<lambda>m. m_id m = k) (map (attachFeedback messageId fb) ms) =
     map_option (attachFeedback messageId fb) (find (\<lambda>m. m_id m = k) ms)"
  by (induction ms) (simp_all add: attachFeedback_id)

lemma messageTextPrefix_attach:
  "messageTextPrefix (map (attachFeedback messageId fb) ms) k = messageTextPrefix ms k"
  by (simp add: messageTextPrefix_def find_attach attachFeedback_text split: option.splits)

lemma handleFeedback_messages:
  "messages (fst (handleFeedback s stored outcome now nowIso messageId ft comment)) =
     map (attachFeedback messageId \<lparr> f_type = ft, f_comment = comment, f_timestamp = now \<rparr>)
       (messages s)"
  by (simp add: handleFeedback_def Let_def split: sum.splits storage_outcome.splits)

lemma handleFeedback_other_fields:
  "currentPark (fst (handleFeedback s stored outcome now nowIso messageId ft comment)) = currentPark s"
  by (simp add: handleFeedback_def Let_def split: sum.splits storage_outcome.splits)

lemma handleFeedback_store_ok:
  assumes "messageTextPrefix (messages s) messageId = Inr text"
  shows "snd (handleFeedback s stored StorageOk now nowIso messageId ft comment) =
           (Some (storedLog stored @
              [\<lparr> fd_messageId = messageId, fd_feedbackType = ft, fd_comment = comment,
                 fd_timestamp = nowIso, fd_park = currentPark s, fd_messageText = text \<rparr>]), None)"
  using assms by (simp add: handleFeedback_def Let_def storedLog_def)

text \<open>
  A store that rejects leaves the log as it was, while the message is updated all the same.
\<close>

lemma handleFeedback_store_fails:
  assumes "outcome \<noteq> StorageOk"
  shows "fst (snd (handleFeedback s stored outcome now nowIso messageId ft comment)) = stored"
  using assms by (cases outcome) (simp_all add: handleFeedback_def Let_def split: sum.splits)

lemma attach_first:
  "list_all2 (\<lambda>m m'. m' = (if m_id m = messageId then m \<lparr> m_feedback := Some fb \<rparr> else m))
     ms (map (attachFeedback messageId fb) ms)"
  by (induction ms) (simp_all add: attachFeedback_def)

lemma attach_overwrites:
  "attachFeedback messageId fb2 (attachFeedback messageId fb1 m) = attachFeedback messageId fb2 m"
  by (simp add: attachFeedback_def)

lemma attachAll_step:
  "attachAll s stored messageId (a # rest) =
     attachAll
       (fst (handleFeedback s stored StorageOk (at_now a) (at_iso a) messageId (at_type a)
               (at_comment a)))
       (fst (snd (handleFeedback s stored StorageOk (at_now a) (at_iso a) messageId (at_type a)
               (at_comment a))))
       messageId rest"
  by (simp add: attachAll.simps Let_def)

lemma handleFeedback_attachment:
  assumes "messageTextPrefix (messages s) messageId = Inr text"
  shows "messages (fst (handleFeedback s stored StorageOk (at_now a) (at_iso a) messageId
                          (at_type a) (at_comment a))) =
           map (attachFeedback messageId (feedbackOf a)) (messages s)"
    and "currentPark (fst (handleFeedback s stored StorageOk (at_now a) (at_iso a) messageId
                          (at_type a) (at_comment a))) = currentPark s"
    and "fst (snd (handleFeedback s stored StorageOk (at_now a) (at_iso a) messageId
                          (at_type a) (at_comment a))) =
           Some (storedLog stored @ [entryOf messageId (currentPark s) text a])"
    and "messageTextPrefix
           (messages (fst (handleFeedback s stored StorageOk (at_now a) (at_iso a) messageId
                          (at_type a) (at_comment a)))) messageId = Inr text"
proof -
  show m: "messages (fst (handleFeedback s stored StorageOk (at_now a) (at_iso a) messageId
                          (at_type a) (at_comment a))) =
           map (attachFeedback messageId (feedbackOf a)) (messages s)"
    by (simp add: handleFeedback_messages feedbackOf_def)
  show "currentPark (fst (handleFeedback s stored StorageOk (at_now a) (at_iso a) messageId
                          (at_type a) (at_comment a))) = currentPark s"
    by (rule handleFeedback_other_fields)
  show "fst (snd (handleFeedback s stored StorageOk (at_now a) (at_iso a) messageId
                          (at_type a) (at_comment a))) =
           Some (storedLog stored @ [entryOf messageId (currentPark s) text a])"
    by (simp add: handleFeedback_store_ok[OF assms] entryOf_def)
  show "messageTextPrefix
           (messages (fst (handleFeedback s stored StorageOk (at_now a) (at_iso a) messageId
                          (at_type a) (at_comment a)))) messageId = Inr text"
    unfolding m by (simp add: messageTextPrefix_attach assms)
qed

lemma attachAll_result:
  assumes "messageTextPrefix (messages s) messageId = Inr text" and "calls \<noteq> []"
  shows "messages (fst (attachAll s stored messageId calls)) =
           map (attachFeedback messageId (feedbackOf (last calls))) (messages s) \<and>
         snd (attachAll s stored messageId calls) =
           Some (storedLog stored @ map (entryOf messageId (currentPark s) text) calls)"
  using assms
proof (induction calls arbitrary: s stored)
  case Nil
  then show ?case by simp
next
  case (Cons a rest)
  note h = handleFeedback_attachment[OF Cons.prems(1), of stored a]
  show ?case
  proof (cases "rest = []")
    case True
    show ?thesis
      unfolding attachAll_step True
      by (simp add: h attachAll.simps)
  next
    case False
    have ih: "messages (fst (attachAll
                (fst (handleFeedback s stored StorageOk (at_now a) (at_iso a) messageId (at_type a)
                        (at_comment a)))
                (fst (snd (handleFeedback s stored StorageOk (at_now a) (at_iso a) messageId
                        (at_type a) (at_comment a))))
                messageId rest)) =
              map (attachFeedback messageId (feedbackOf (last rest)))
                (map (attachFeedback messageId (feedbackOf a)) (messages s)) \<and>
          snd (attachAll
                (fst (handleFeedback s stored StorageOk (at_now a) (at_iso a) messageId (at_type a)
                        (at_comment a)))
                (fst (snd (handleFeedback s stored StorageOk (at_now a) (at_iso a) messageId
                        (at_type a) (at_comment a))))
                messageId rest) =
              Some (storedLog (Some (storedLog stored @ [entryOf messageId (currentPark s) text a])) @
                    map (entryOf messageId (currentPark s) text) rest)"
      using Cons.IH[OF h(4) False, of "fst (snd (handleFeedback s stored StorageOk (at_now a) (at_iso a) messageId
                        (at_type a) (at_comment a)))"]
      by (simp only: h)
    have l: "last (a # rest) = last rest" using False by simp
    show ?thesis
      unfolding attachAll_step l
      using ih by (simp add: attach_overwrites storedLog_def)
  qed
qed

text \<open>
  Claim C8. Feedback is attached to one message id any number of times, at least once, the
  store accepting every write and the text of the message being a string (or the message being
  absent). Afterwards every message with that id carries the feedback of the last attachment,
  type, comment and time stamp, and every other message is as it was. The stored log is the
  previous log followed by one new entry per attachment, in the order of the calls, each with
  its own type, comment and time stamp: a later attachment is appended, never merged into the
  entry of an earlier one.
\<close>

theorem feedback_latest_wins_log_appends:
  assumes "messageTextPrefix (messages s) messageId = Inr text" and "calls \<noteq> []"
  shows "list_all2 (\<lambda>m m'. m' = (if m_id m = messageId
                                then m \<lparr> m_feedback := Some (feedbackOf (last calls)) \<rparr>
                                else m))
           (messages s) (messages (fst (attachAll s stored messageId calls))) \<and>
         snd (attachAll s stored messageId calls) =
           Some (storedLog stored @ map (entryOf messageId (currentPark s) text) calls)"
  using attachAll_result[OF assms, of stored] attach_first[of messageId "feedbackOf (last calls)" "messages s"]
  by simp

lemma chat_prefix:
  "messageTextPrefix (messages chatSession) ''ai_1700000000900_0.75'' = Inr (Some ''Open from 9:00 AM'')"
  by (simp add: messageTextPrefix_def chatSession_def blankSession_def)

text \<open>The theorem at a session of two messages, the reply rated up and then down.\<close>

theorem feedback_latest_wins_log_appends_witness:
  "messageTextPrefix (messages chatSession) ''ai_1700000000900_0.75''
     = Inr (Some ''Open from 9:00 AM'') \<and>
   [rateUp, rateDown] \<noteq> [] \<and>
   list_all2 (\<lambda>m m'. m' = (if m_id m = ''ai_1700000000900_0.75''
                              then m \<lparr> m_feedback := Some (feedbackOf rateDown) \<rparr> else m))
     (messages chatSession)
     (messages (fst (attachAll chatSession None ''ai_1700000000900_0.75'' [rateUp, rateDown]))) \<and>
   map m_feedback
     (messages (fst (attachAll chatSession None ''ai_1700000000900_0.75'' [rateUp, rateDown])))
     = [None, Some \<lparr> f_type = negative, f_comment = Some ''closes earlier'',
                      f_timestamp = 1700000002000 \<rparr>] \<and>
   snd (attachAll chatSession None ''ai_1700000000900_0.75'' [rateUp, rateDown]) =
     Some [\<lparr> fd_messageId = ''ai_1700000000900_0.75'', fd_feedbackType = positive,
             fd_comment = None, fd_timestamp = ''2023-11-14T22:13:21.000Z'',
             fd_park = magicKingdom, fd_messageText = Some ''Open from 9:00 AM'' \<rparr>,
           \<lparr> fd_messageId = ''ai_1700000000900_0.75'', fd_feedbackType = negative,
             fd_comment = Some ''closes earlier'', fd_timestamp = ''2023-11-14T22:13:22.000Z'',
             fd_park = magicKingdom, fd_messageText = Some ''Open from 9:00 AM'' \<rparr>]"
proof -
  have ne: "[rateUp, rateDown] \<noteq> []" by simp
  have la: "last [rateUp, rateDown] = rateDown" by simp
  note t = feedback_latest_wins_log_appends[OF chat_prefix ne, of None]
  have cp: "currentPark chatSession = magicKingdom"
    by (simp add: chatSession_def blankSession_def)
  have m: "map m_feedback
     (messages (fst (attachAll chatSession None ''ai_1700000000900_0.75'' [rateUp, rateDown])))
     = [None, Some \<lparr> f_type = negative, f_comment = Some ''closes earlier'',
                      f_timestamp = 1700000002000 \<rparr>]"
    using attachAll_result[OF chat_prefix ne, of None]
    by (simp add: attachFeedback_def feedbackOf_def rateDown_def chatSession_def blankSession_def)
  have l: "snd (attachAll chatSession None ''ai_1700000000900_0.75'' [rateUp, rateDown]) =
     Some [\<lparr> fd_messageId = ''ai_1700000000900_0.75'', fd_feedbackType = positive,
             fd_comment = None, fd_timestamp = ''2023-11-14T22:13:21.000Z'',
             fd_park = magicKingdom, fd_messageText = Some ''Open from 9:00 AM'' \<rparr>,
           \<lparr> fd_messageId = ''ai_1700000000900_0.75'', fd_feedbackType = negative,
             fd_comment = Some ''closes earlier'', fd_timestamp = ''2023-11-14T22:13:22.000Z'',
             fd_park = magicKingdom, fd_messageText = Some ''Open from 9:00 AM'' \<rparr>]"
    using t by (simp add: storedLog_def entryOf_def rateUp_def rateDown_def cp)
  have f: "list_all2 (\<lambda>m m'. m' = (if m_id m = ''ai_1700000000900_0.75''
                              then m \<lparr> m_feedback := Some (feedbackOf rateDown) \<rparr> else m))
     (messages chatSession)
     (messages (fst (attachAll chatSession None ''ai_1700000000900_0.75'' [rateUp, rateDown])))"
    using t[unfolded la] by (rule conjunct1)
  show ?thesis
    using chat_prefix ne f m l by (intro conjI)
qed

section \<open>Park data fetches\<close>

lemma lookupKey_absent: "k \<notin> fst ` set kvs \<Longrightarrow> lookupKey kvs k = JUndefined"
proof -
  assume "k \<notin> fst ` set kvs"
  then have "map_of (rev kvs) k = None"
    by (simp add: map_of_eq_None_iff)
  then show ?thesis by (simp add: lookupKey_def)
qed

lemma getWaitTimes_resolves: "\<exists>d. getWaitTimes pid outcome nowIso = Inr d"
  by (simp add: getWaitTimes_def Let_def split: sum.splits)

lemma getParkHours_resolves: "\<exists>v. getParkHours pid outcome = Inr v"
  by (simp add: getParkHours_def Let_def split: sum.splits)

lemma getEntertainment_resolves: "\<exists>v. getEntertainment pid outcome = Inr v"
  by (simp add: getEntertainment_def Let_def split: sum.splits)

lemma non2xx_fallbacks:
  assumes "\<not> response_ok status"
  shows "getWaitTimes pid (Responded status body) nowIso = Inr (getFallbackWaitTimes pid nowIso)"
    and "getParkHours pid (Responded status body) = Inr (getFallbackParkHours pid)"
    and "getEntertainment pid (Responded status body) = Inr (getFallbackEntertainment pid)"
    and "directFetch (Responded status body) = JNull"
  using assms
  by (simp_all add: getWaitTimes_def getParkHours_def getEntertainment_def directFetch_def Let_def)

lemma rejected_fallbacks:
  shows "getWaitTimes pid Rejected nowIso = Inr (getFallbackWaitTimes pid nowIso)"
    and "getParkHours pid Rejected = Inr (getFallbackParkHours pid)"
    and "getEntertainment pid Rejected = Inr (getFallbackEntertainment pid)"
    and "directFetch Rejected = JNull"
  by (simp_all add: getWaitTimes_def getParkHours_def getEntertainment_def directFetch_def Let_def)

lemma absent_field_empty:
  assumes "response_ok status"
  shows "''attractions'' \<notin> fst ` set kvs \<Longrightarrow>
           getWaitTimes pid (Responded status (Json (JObj kvs))) nowIso =
             Inr \<lparr> pd_parkName = getParkName pid, pd_parkId = pid, pd_attractions = [],
                   pd_lastUpdated = nowIso, pd_source = ''disney_proxy'' \<rparr>"
    and "''schedule'' \<notin> fst ` set kvs \<Longrightarrow>
           getParkHours pid (Responded status (Json (JObj kvs))) = Inr (JArr [])"
    and "''entertainment'' \<notin> fst ` set kvs \<Longrightarrow>
           getEntertainment pid (Responded status (Json (JObj kvs))) = Inr (JArr [])"
  using assms
  by (simp_all add: getWaitTimes_def getParkHours_def getEntertainment_def Let_def getProp_def
        lookupKey_absent js_or_def truthy_def normalizeAttractions_def)

lemma fallback_placeholder:
  "map n_name (pd_attractions (getFallbackWaitTimes pid nowIso)) = [JStr ''Check Disney World App'']"
  "pd_source (getFallbackWaitTimes pid nowIso) = ''fallback''"
  by (simp_all add: getFallbackWaitTimes_def)

lemma loadPark_allData:
  assumes "getWaitTimes pid (src_waitTimes src) nowIso = Inr d"
  shows "allData (loadPark pid src nowIso acc) = allData acc @ map (toLoaded pid) (pd_attractions d)"
  using assms
  by (simp add: loadPark_def Let_def split: jsv.splits)

lemma loadPark_no_shows_no_meets:
  assumes "getWaitTimes pid (src_waitTimes src) nowIso = Inr d"
    and "\<not> truthy (optProp (directFetch (src_entertainment src)) ''entertainment'')"
    and "\<not> truthy (optProp (directFetch (src_characterMeets src)) ''characterMeets'')"
  shows "loadPark pid src nowIso acc =
           acc \<lparr> allData := allData acc @ map (toLoaded pid) (pd_attractions d),
                 accParkHours := accParkHours acc @
                   (if truthy (directFetch (src_parkHours src))
                    then [(pid, directFetch (src_parkHours src))] else []) \<rparr>"
  using assms
  by (simp add: loadPark_def Let_def)

text \<open>
  A park whose hours and character meets are missing still gets its shows stored.
\<close>

lemma loadPark_no_hours_no_meets:
  assumes "getWaitTimes pid (src_waitTimes src) nowIso = Inr d"
    and "optProp (directFetch (src_entertainment src)) ''entertainment'' = JArr shows"
    and "\<not> list_ex isNullish shows"
    and "\<not> truthy (optProp (directFetch (src_characterMeets src)) ''characterMeets'')"
    and "\<not> truthy (directFetch (src_parkHours src))"
  shows "loadPark pid src nowIso acc =
           acc \<lparr> allData := allData acc @ map (toLoaded pid) (pd_attractions d),
                 accEntertainment := accEntertainment acc @ [(pid, JArr shows)] \<rparr>"
proof -
  have "truthy (directFetch (src_entertainment src))"
    using assms(2) by (cases "directFetch (src_entertainment src)") (simp_all add: optProp_def truthy_def)
  then show ?thesis
    using assms by (simp add: loadPark_def Let_def truthy_def)
qed

lemma loadPark_contribution:
  "allData (loadPark pid src nowIso acc) = allData acc @ parkContribution pid (src_waitTimes src) nowIso"
proof -
  obtain d where d: "getWaitTimes pid (src_waitTimes src) nowIso = Inr d"
    using getWaitTimes_resolves by blast
  show ?thesis
    using loadPark_allData[OF d] by (simp add: parkContribution_def d)
qed

lemma fold_contribution:
  "allData (foldl (\<lambda>a pid. loadPark pid (sources pid) nowIso a) acc ps) =
     allData acc @ concat (map (\<lambda>pid. parkContribution pid (src_waitTimes (sources pid)) nowIso) ps)"
  by (induction ps arbitrary: acc) (simp_all add: loadPark_contribution)

lemma loadAttractions_None_iff:
  "loadAttractions sources nowIso = None \<longleftrightarrow>
     list_all (\<lambda>pid. parkContribution pid (src_waitTimes (sources pid)) nowIso = [])
       [MagicKingdom, Epcot, HollywoodStudios, AnimalKingdom]"
proof -
  define ps where "ps = [MagicKingdom, Epcot, HollywoodStudios, AnimalKingdom]"
  have "allData (foldl (\<lambda>a pid. loadPark pid (sources pid) nowIso a) emptyAcc ps) =
          concat (map (\<lambda>pid. parkContribution pid (src_waitTimes (sources pid)) nowIso) ps)"
    by (simp add: fold_contribution emptyAcc_def)
  then show ?thesis
    unfolding loadAttractions_def Let_def ps_def[symmetric]
    by (simp add: list_all_iff)
qed

lemma absent_contribution:
  assumes "response_ok status" and "''attractions'' \<notin> fst ` set kvs"
  shows "parkContribution pid (Responded status (Json (JObj kvs))) nowIso = []"
  by (simp add: parkContribution_def absent_field_empty(1)[OF assms])

lemma non2xx_contribution:
  assumes "\<not> response_ok status"
  shows "map la_name (parkContribution pid (Responded status body) nowIso) =
           [JStr ''Check Disney World App'']"
  by (simp add: parkContribution_def non2xx_fallbacks(1)[OF assms] getFallbackWaitTimes_def
        toLoaded_def)

text \<open>
  When the wait-times payload of every park lacks its \<^verbatim>\<open>attractions\<close> field, nothing is
  stored at all, whatever the other endpoints sent.
\<close>

lemma all_absent_blocks:
  assumes "\<And>pid. \<exists>status kvs. src_waitTimes (sources pid) = Responded status (Json (JObj kvs)) \<and>
             response_ok status \<and> ''attractions'' \<notin> fst ` set kvs"
  shows "loadAttractions sources nowIso = None"
proof -
  have "parkContribution pid (src_waitTimes (sources pid)) nowIso = []" for pid
    using assms[of pid] by (auto simp: absent_contribution)
  then show ?thesis by (simp add: loadAttractions_None_iff)
qed

lemma optProp_truthy_obj: "truthy (optProp x p) \<Longrightarrow> truthy x"
  by (cases x) (simp_all add: optProp_def truthy_def)

lemma loadPark_categories:
  assumes "noneOrShows (fetchedShows src)" and "noneOrList (fetchedMeets src)"
  shows "loadPark pid src nowIso acc =
           \<lparr> allData = allData acc @ parkContribution pid (src_waitTimes src) nowIso,
             accEntertainment = accEntertainment acc @ entryFor pid (fetchedShows src),
             accParkHours = accParkHours acc @ entryFor pid (fetchedHours src),
             accCharacterMeets = accCharacterMeets acc @ meetEntries pid (fetchedMeets src) \<rparr>"
proof -
  obtain d where d: "getWaitTimes pid (src_waitTimes src) nowIso = Inr d"
    using getWaitTimes_resolves by blast
  have e: "truthy (fetchedShows src) \<Longrightarrow> truthy (directFetch (src_entertainment src))"
    unfolding fetchedShows_def by (rule optProp_truthy_obj)
  have m: "truthy (fetchedMeets src) \<Longrightarrow> truthy (directFetch (src_characterMeets src))"
    unfolding fetchedMeets_def by (rule optProp_truthy_obj)
  show ?thesis
    using assms e m
    unfolding noneOrShows_def noneOrList_def
    by (cases "fetchedShows src"; cases "fetchedMeets src")
       (auto simp: loadPark_def Let_def d parkContribution_def entryFor_def meetEntries_def
          fetchedShows_def fetchedMeets_def fetchedHours_def truthy_def)
qed


lemma getProp_optProp:
  "data \<noteq> JNull \<Longrightarrow> data \<noteq> JUndefined \<Longrightarrow> getProp data p = Inr (optProp data p)"
  by (cases data) (simp_all add: getProp_def optProp_def)

lemma falsy_field_empty:
  assumes "response_ok status" and "data \<noteq> JNull" and "data \<noteq> JUndefined"
  shows "\<not> truthy (optProp data ''attractions'') \<Longrightarrow>
           getWaitTimes pid (Responded status (Json data)) nowIso =
             Inr \<lparr> pd_parkName = getParkName pid, pd_parkId = pid, pd_attractions = [],
                   pd_lastUpdated = nowIso, pd_source = ''disney_proxy'' \<rparr>"
    and "\<not> truthy (optProp data ''schedule'') \<Longrightarrow>
           getParkHours pid (Responded status (Json data)) = Inr (JArr [])"
    and "\<not> truthy (optProp data ''entertainment'') \<Longrightarrow>
           getEntertainment pid (Responded status (Json data)) = Inr (JArr [])"
  using assms
  by (simp_all add: getWaitTimes_def getParkHours_def getEntertainment_def Let_def
        getProp_optProp js_or_def normalizeAttractions_def)

lemma null_payload_fallbacks:
  assumes "response_ok status"
  shows "getWaitTimes pid (Responded status (Json JNull)) nowIso =
           Inr (getFallbackWaitTimes pid nowIso)"
    and "getParkHours pid (Responded status (Json JNull)) = Inr (getFallbackParkHours pid)"
    and "getEntertainment pid (Responded status (Json JNull)) =
           Inr (getFallbackEntertainment pid)"
    and "directFetch (Responded status (Json JNull)) = JNull"
  using assms
  by (simp_all add: getWaitTimes_def getParkHours_def getEntertainment_def directFetch_def
        Let_def getProp_def)

lemma placeholder_cached:
  assumes "\<not> response_ok status"
  shows "parkContribution pid (Responded status body) nowIso =
           [\<lparr> la_id = proxyParkName pid @ ''-'' @ parkIdString pid @ ''-fallback-1'',
              la_name = JStr ''Check Disney World App'', la_waitTime = 0, la_isOpen = True,
              la_hasLightningLane = JBool False, la_park = pid, la_land = JUndefined \<rparr>]"
  by (simp add: parkContribution_def non2xx_fallbacks(1)[OF assms] getFallbackWaitTimes_def
        toLoaded_def js_or_def truthy_def)

lemma fallback_placeholder_fields:
  "map n_waitTime (pd_attractions (getFallbackWaitTimes pid nowIso)) = [0]"
  "map n_isOpen (pd_attractions (getFallbackWaitTimes pid nowIso)) = [True]"
  "map n_park (pd_attractions (getFallbackWaitTimes pid nowIso)) = [pid]"
  by (simp_all add: getFallbackWaitTimes_def)

lemma failed_category_none:
  assumes "\<not> response_ok status"
  shows "optProp (directFetch (Responded status body)) field = JUndefined"
  by (simp add: non2xx_fallbacks(4)[OF assms] optProp_def)

lemma none_adds_nothing:
  "\<not> truthy v \<Longrightarrow> noneOrShows v \<and> noneOrList v \<and> entryFor pid v = [] \<and> meetEntries pid v = []"
  by (cases v) (simp_all add: noneOrShows_def noneOrList_def entryFor_def meetEntries_def truthy_def)

lemma falsy_contribution:
  assumes "response_ok status" and "data \<noteq> JNull" and "data \<noteq> JUndefined"
    and "\<not> truthy (optProp data ''attractions'')"
  shows "parkContribution pid (Responded status (Json data)) nowIso = []"
  by (simp add: parkContribution_def falsy_field_empty(1)[OF assms])

text \<open>
  Claim C9, as amended. No fetch of the data service rejects, whatever the request does. A
  response outside 200..299, like a success whose body is \<^verbatim>\<open>null\<close>, makes each service
  function return the static fallback of its category; for wait times that is a result with
  source "fallback" holding one placeholder attraction named "Check Disney World App", open,
  with a wait of 0 minutes, which \<^verbatim>\<open>loadAttractions\<close> caches like a fetched attraction. In
  the requests \<^verbatim>\<open>loadAttractions\<close> sends itself such a response reads as \<^verbatim>\<open>null\<close>, and
  every field read from it as \<^verbatim>\<open>undefined\<close>. A success whose payload is not \<^verbatim>\<open>null\<close> and
  whose field is absent or falsy gives an empty list. Within one park no category holds back
  another: the attractions are always collected, and when the shows and the character meets
  each are either missing or a list, every category adds exactly its own data to its own
  accumulator, a missing one adding nothing. What was collected is stored exactly when at
  least one park contributed an attraction.
\<close>

theorem park_fetches_degrade:
  "(\<exists>d. getWaitTimes pid outcome nowIso = Inr d) \<and>
   (\<exists>v. getParkHours pid outcome = Inr v) \<and>
   (\<exists>v. getEntertainment pid outcome = Inr v) \<and>
   (\<not> response_ok status \<longrightarrow>
      getWaitTimes pid (Responded status body) nowIso = Inr (getFallbackWaitTimes pid nowIso) \<and>
      getParkHours pid (Responded status body) = Inr (getFallbackParkHours pid) \<and>
      getEntertainment pid (Responded status body) = Inr (getFallbackEntertainment pid) \<and>
      directFetch (Responded status body) = JNull \<and>
      optProp (directFetch (Responded status body)) field = JUndefined \<and>
      parkContribution pid (Responded status body) nowIso =
        [\<lparr> la_id = proxyParkName pid @ ''-'' @ parkIdString pid @ ''-fallback-1'',
           la_name = JStr ''Check Disney World App'', la_waitTime = 0, la_isOpen = True,
           la_hasLightningLane = JBool False, la_park = pid, la_land = JUndefined \<rparr>]) \<and>
   pd_source (getFallbackWaitTimes pid nowIso) = ''fallback'' \<and>
   map n_name (pd_attractions (getFallbackWaitTimes pid nowIso)) = [JStr ''Check Disney World App''] \<and>
   map n_waitTime (pd_attractions (getFallbackWaitTimes pid nowIso)) = [0] \<and>
   map n_isOpen (pd_attractions (getFallbackWaitTimes pid nowIso)) = [True] \<and>
   map n_park (pd_attractions (getFallbackWaitTimes pid nowIso)) = [pid] \<and>
   (response_ok okStatus \<longrightarrow>
      getWaitTimes pid (Responded okStatus (Json JNull)) nowIso =
        Inr (getFallbackWaitTimes pid nowIso) \<and>
      getParkHours pid (Responded okStatus (Json JNull)) = Inr (getFallbackParkHours pid) \<and>
      getEntertainment pid (Responded okStatus (Json JNull)) =
        Inr (getFallbackEntertainment pid) \<and>
      directFetch (Responded okStatus (Json JNull)) = JNull) \<and>
   (response_ok okStatus \<longrightarrow> data \<noteq> JNull \<longrightarrow> data \<noteq> JUndefined \<longrightarrow>
      (\<not> truthy (optProp data ''attractions'') \<longrightarrow>
         getWaitTimes pid (Responded okStatus (Json data)) nowIso =
           Inr \<lparr> pd_parkName = getParkName pid, pd_parkId = pid, pd_attractions = [],
                 pd_lastUpdated = nowIso, pd_source = ''disney_proxy'' \<rparr> \<and>
         parkContribution pid (Responded okStatus (Json data)) nowIso = []) \<and>
      (\<not> truthy (optProp data ''schedule'') \<longrightarrow>
         getParkHours pid (Responded okStatus (Json data)) = Inr (JArr [])) \<and>
      (\<not> truthy (optProp data ''entertainment'') \<longrightarrow>
         getEntertainment pid (Responded okStatus (Json data)) = Inr (JArr []))) \<and>
   allData (loadPark pid src nowIso acc) =
     allData acc @ parkContribution pid (src_waitTimes src) nowIso \<and>
   (\<not> truthy v \<longrightarrow>
      noneOrShows v \<and> noneOrList v \<and> entryFor pid v = [] \<and> meetEntries pid v = []) \<and>
   (noneOrShows (fetchedShows src) \<longrightarrow> noneOrList (fetchedMeets src) \<longrightarrow>
      loadPark pid src nowIso acc =
        \<lparr> allData = allData acc @ parkContribution pid (src_waitTimes src) nowIso,
          accEntertainment = accEntertainment acc @ entryFor pid (fetchedShows src),
          accParkHours = accParkHours acc @ entryFor pid (fetchedHours src),
          accCharacterMeets = accCharacterMeets acc @ meetEntries pid (fetchedMeets src) \<rparr>) \<and>
   (loadAttractions sources nowIso = None \<longleftrightarrow>
      list_all (\<lambda>p. parkContribution p (src_waitTimes (sources p)) nowIso = [])
        [MagicKingdom, Epcot, HollywoodStudios, AnimalKingdom])"
proof (intro conjI impI)
  show "\<exists>d. getWaitTimes pid outcome nowIso = Inr d" by (rule getWaitTimes_resolves)
  show "\<exists>v. getParkHours pid outcome = Inr v" by (rule getParkHours_resolves)
  show "\<exists>v. getEntertainment pid outcome = Inr v" by (rule getEntertainment_resolves)
  show "allData (loadPark pid src nowIso acc) =
          allData acc @ parkContribution pid (src_waitTimes src) nowIso"
    by (rule loadPark_contribution)
next
  assume "noneOrShows (fetchedShows src)" and "noneOrList (fetchedMeets src)"
  then show "loadPark pid src nowIso acc =
        \<lparr> allData = allData acc @ parkContribution pid (src_waitTimes src) nowIso,
          accEntertainment = accEntertainment acc @ entryFor pid (fetchedShows src),
          accParkHours = accParkHours acc @ entryFor pid (fetchedHours src),
          accCharacterMeets = accCharacterMeets acc @ meetEntries pid (fetchedMeets src) \<rparr>"
    by (rule loadPark_categories)
qed (simp_all add: non2xx_fallbacks fallback_placeholder fallback_placeholder_fields
       null_payload_fallbacks falsy_field_empty placeholder_cached failed_category_none
       none_adds_nothing loadAttractions_None_iff optProp_def falsy_contribution)

lemma status_facts: "\<not> response_ok 500" "response_ok 200" "\<not> response_ok 404"
  by (simp_all add: response_ok_def)

lemma failing_park:
  "loadPark pid (failingSources pid) sampleIso acc =
     acc \<lparr> allData := allData acc @
             map (toLoaded pid) (pd_attractions (getFallbackWaitTimes pid sampleIso)) \<rparr>"
proof -
  have d: "getWaitTimes pid (src_waitTimes (failingSources pid)) sampleIso =
             Inr (getFallbackWaitTimes pid sampleIso)"
    by (simp add: failingSources_def non2xx_fallbacks status_facts)
  have n: "directFetch (Responded 500 NotJson) = JNull"
    by (simp add: non2xx_fallbacks status_facts)
  show ?thesis
    using loadPark_no_shows_no_meets[OF d, of acc]
    by (simp add: failingSources_def n optProp_def truthy_def)
qed

lemma failing_load:
  "\<exists>acc. loadAttractions failingSources sampleIso = Some acc \<and>
         map la_name (allData acc) =
           [JStr ''Check Disney World App'', JStr ''Check Disney World App'',
            JStr ''Check Disney World App'', JStr ''Check Disney World App''] \<and>
         map la_waitTime (allData acc) = [0, 0, 0, 0] \<and>
         map la_park (allData acc) = [MagicKingdom, Epcot, HollywoodStudios, AnimalKingdom]"
  by (simp add: loadAttractions_def Let_def failing_park emptyAcc_def getFallbackWaitTimes_def
        toLoaded_def)

lemma shows_only_load: "loadAttractions showsOnlySources sampleIso = None"
proof (rule all_absent_blocks)
  fix pid
  show "\<exists>status kvs. src_waitTimes (showsOnlySources pid) = Responded status (Json (JObj kvs)) \<and>
             response_ok status \<and> ''attractions'' \<notin> fst ` set kvs"
    by (simp add: showsOnlySources_def status_facts)
qed

lemma shows_only_entertainment:
  "optProp (directFetch (src_entertainment (showsOnlySources MagicKingdom))) ''entertainment'' =
     JArr [JObj [(''name'', JStr ''Fantasmic!''), (''times'', JArr [JStr ''8:30 PM''])]]"
  by (simp add: showsOnlySources_def directFetch_def status_facts oneShowPayload_def optProp_def
        lookupKey_def)

text \<open>
  Claim C9 as stated fails. A 500 from the wait-times endpoint does not give an empty result:
  the fallback holds a placeholder attraction, and \<^verbatim>\<open>loadAttractions\<close> caches one such
  placeholder per park as an attraction with a wait of 0 minutes. And a missing
  \<^verbatim>\<open>attractions\<close> field does hold back another category: when no park contributes an
  attraction, the show that the entertainment endpoint delivered is not stored.
\<close>

theorem fetch_failure_counterexample:
  "\<not> response_ok 500 \<and>
   getWaitTimes MagicKingdom (Responded 500 NotJson) sampleIso =
     Inr (getFallbackWaitTimes MagicKingdom sampleIso) \<and>
   map n_name (pd_attractions (getFallbackWaitTimes MagicKingdom sampleIso)) =
     [JStr ''Check Disney World App''] \<and>
   (\<exists>acc. loadAttractions failingSources sampleIso = Some acc \<and>
         map la_name (allData acc) =
           [JStr ''Check Disney World App'', JStr ''Check Disney World App'',
            JStr ''Check Disney World App'', JStr ''Check Disney World App''] \<and>
         map la_waitTime (allData acc) = [0, 0, 0, 0] \<and>
         map la_park (allData acc) = [MagicKingdom, Epcot, HollywoodStudios, AnimalKingdom]) \<and>
   optProp (directFetch (src_entertainment (showsOnlySources MagicKingdom))) ''entertainment'' =
     JArr [JObj [(''name'', JStr ''Fantasmic!''), (''times'', JArr [JStr ''8:30 PM''])]] \<and>
   loadAttractions showsOnlySources sampleIso = None"
  using status_facts(1) non2xx_fallbacks(1)[OF status_facts(1), of MagicKingdom NotJson sampleIso]
    fallback_placeholder(1)[of MagicKingdom sampleIso] failing_load shows_only_entertainment
    shows_only_load
  by blast

lemma noShows_fetched:
  "fetchedShows (noShowsSources MagicKingdom) = JUndefined"
  "fetchedMeets (noShowsSources MagicKingdom) =
     JArr [JObj [(''character'', JStr ''Mickey Mouse''),
                 (''location'', JStr ''Town Square Theater'')]]"
  "fetchedHours (noShowsSources MagicKingdom) = oneDayPayload"
  by (simp_all add: fetchedShows_def fetchedMeets_def fetchedHours_def noShowsSources_def
        directFetch_def status_facts optProp_def lookupKey_def oneMeetPayload_def)

text \<open>
  The theorem at a 500 without a body, at a 200 with an empty object and with \<^verbatim>\<open>null\<close>, and
  at a park whose wait-times and entertainment requests fail while its character meets and
  hours arrive: the placeholder, the meet and the hours are collected, and no show.
\<close>

theorem park_fetches_degrade_witness:
  "\<not> response_ok 500 \<and> response_ok 200 \<and>
   JObj [] \<noteq> JNull \<and> JObj [] \<noteq> JUndefined \<and>
   \<not> truthy (optProp (JObj []) ''attractions'') \<and>
   \<not> truthy (optProp (JObj []) ''schedule'') \<and>
   \<not> truthy (optProp (JObj []) ''entertainment'') \<and>
   \<not> truthy JUndefined \<and>
   noneOrShows (fetchedShows (noShowsSources MagicKingdom)) \<and>
   noneOrList (fetchedMeets (noShowsSources MagicKingdom)) \<and>
   getWaitTimes MagicKingdom (Responded 500 NotJson) sampleIso =
     Inr (getFallbackWaitTimes MagicKingdom sampleIso) \<and>
   getParkHours MagicKingdom (Responded 500 NotJson) = Inr (getFallbackParkHours MagicKingdom) \<and>
   getEntertainment MagicKingdom (Responded 500 NotJson) =
     Inr (getFallbackEntertainment MagicKingdom) \<and>
   directFetch (Responded 500 NotJson) = JNull \<and>
   getWaitTimes MagicKingdom (Responded 200 (Json JNull)) sampleIso =
     Inr (getFallbackWaitTimes MagicKingdom sampleIso) \<and>
   getWaitTimes MagicKingdom (Responded 200 (Json (JObj []))) sampleIso =
     Inr \<lparr> pd_parkName = getParkName MagicKingdom, pd_parkId = MagicKingdom, pd_attractions = [],
           pd_lastUpdated = sampleIso, pd_source = ''disney_proxy'' \<rparr> \<and>
   parkContribution MagicKingdom (Responded 200 (Json (JObj []))) sampleIso = [] \<and>
   getParkHours MagicKingdom (Responded 200 (Json (JObj []))) = Inr (JArr []) \<and>
   getEntertainment MagicKingdom (Responded 200 (Json (JObj []))) = Inr (JArr []) \<and>
   loadPark MagicKingdom (noShowsSources MagicKingdom) sampleIso emptyAcc =
     \<lparr> allData =
         [\<lparr> la_id = ''magic-kingdom-magicKingdom-fallback-1'',
            la_name = JStr ''Check Disney World App'', la_waitTime = 0, la_isOpen = True,
            la_hasLightningLane = JBool False, la_park = MagicKingdom, la_land = JUndefined \<rparr>],
       accEntertainment = [],
       accParkHours = [(MagicKingdom, oneDayPayload)],
       accCharacterMeets =
         [JObj [(''character'', JStr ''Mickey Mouse''),
                (''location'', JStr ''Town Square Theater''),
                (''park'', JStr ''magicKingdom'')]] \<rparr> \<and>
   (loadAttractions showsOnlySources sampleIso = None) =
     list_all (\<lambda>p. parkContribution p (src_waitTimes (showsOnlySources p)) sampleIso = [])
       [MagicKingdom, Epcot, HollywoodStudios, AnimalKingdom]"
proof -
  have f: "\<not> truthy (optProp (JObj []) ''attractions'')"
    "\<not> truthy (optProp (JObj []) ''schedule'')"
    "\<not> truthy (optProp (JObj []) ''entertainment'')"
    "\<not> truthy JUndefined"
    by (simp_all add: optProp_def lookupKey_def truthy_def)
  have n: "noneOrShows (fetchedShows (noShowsSources MagicKingdom))"
    "noneOrList (fetchedMeets (noShowsSources MagicKingdom))"
    by (simp_all add: noShows_fetched noneOrShows_def noneOrList_def truthy_def)
  have w: "src_waitTimes (noShowsSources MagicKingdom) = Responded 500 NotJson"
    by (simp add: noShowsSources_def)
  have e: "entryFor MagicKingdom JUndefined = []"
    "entryFor MagicKingdom oneDayPayload = [(MagicKingdom, oneDayPayload)]"
    "meetEntries MagicKingdom
       (JArr [JObj [(''character'', JStr ''Mickey Mouse''),
                    (''location'', JStr ''Town Square Theater'')]]) =
     [JObj [(''character'', JStr ''Mickey Mouse''),
            (''location'', JStr ''Town Square Theater''),
            (''park'', JStr ''magicKingdom'')]]"
    by (simp_all add: entryFor_def meetEntries_def truthy_def oneDayPayload_def spreadEntries_def)
  note t = park_fetches_degrade[where pid = MagicKingdom and outcome = Rejected
        and nowIso = sampleIso and status = 500 and body = NotJson and okStatus = 200
        and data = "JObj []" and src = "noShowsSources MagicKingdom" and v = JUndefined
        and field = "''entertainment''" and acc = emptyAcc and sources = showsOnlySources]
  show ?thesis
    using t status_facts f n
    by (simp add: w noShows_fetched e emptyAcc_def)
qed

end
